theory Spec2Isabelle
  imports Complex_Main
begin

section \<open>Conventions\<close>

text \<open>
  The development embeds the sample-indexing and normalisation code of
  \<^verbatim>\<open>torchhydro/datasets/data_sets.py\<close> and \<^verbatim>\<open>torchhydro/datasets/data_scalers.py\<close>.

  \<^item> Python integers are \<open>int\<close>; the lengths of a dataset (\<open>rho\<close>, \<open>warmup_length\<close>, positions
    on the time axis) are \<open>nat\<close>, and every comparison that Python makes on possibly
    negative differences is written out on \<open>int\<close>.
  \<^item> The value of a float64 expression is never computed here: where the code's result
    rests on one, that value is an argument of the definition. A float that may be NaN is a
    \<open>real option\<close>.
  \<^item> Every exception the modelled code can raise is a value of \<open>error\<close>, returned as \<open>Inl\<close>.
\<close>

datatype error =
    ZeroDivisionError
  | ValueError
  | OverflowError
  | AssertionError
  | FileNotFoundError
  | SameFileError
  | KeyError
  | IndexError
  | AttributeError
  | JSONDecodeError
  | UnpicklingError

section \<open>KuaiSampler\<close>





section \<open>Labelled arrays\<close>

text \<open>
  An \<^verbatim>\<open>xarray.DataArray\<close> with dimensions (variable, basin, time), as
  \<^verbatim>\<open>_trans2da_and_setunits\<close> produces it: the coordinates in their order and the values as
  a function of the labels. A timestamp is a day number: the code's arithmetic on
  timestamps is in whole days (\<^verbatim>\<open>np.timedelta64(n, "D")\<close>). The element type is left open.
\<close>

record ('b, 'v) DataArray =
  da_variable :: "string list"
  da_basin :: "'b list"
  da_time :: "int list"
  da_values :: "string \<Rightarrow> 'b \<Rightarrow> int \<Rightarrow> 'v"

text \<open>The static attributes: dimensions (variable, basin).\<close>

record ('b, 'v) AttrArray =
  attr_variable :: "string list"
  attr_basin :: "'b list"
  attr_values :: "string \<Rightarrow> 'b \<Rightarrow> 'v"

text \<open>
  \<^verbatim>\<open>da.sel(basin=basin).to_numpy().T\<close>: one row per timestamp, one column per variable;
  a basin that is not a label raises \<^verbatim>\<open>KeyError\<close>.
\<close>

definition sel_basin :: "('b, 'v) DataArray \<Rightarrow> 'b \<Rightarrow> error + 'v list list" where
  "sel_basin da basin =
     (if basin \<in> set (da_basin da)
      then Inr (map (\<lambda>t. map (\<lambda>v. da_values da v basin t) (da_variable da)) (da_time da))
      else Inl KeyError)"

text \<open>
  \<^verbatim>\<open>da.sel(basin=basin, time=slice(t0, t1)).to_numpy().T\<close>: a label slice keeps the
  timestamps of the axis within the closed interval, in the order of the axis.
\<close>

definition sel_basin_time ::
    "('b, 'v) DataArray \<Rightarrow> 'b \<Rightarrow> int \<Rightarrow> int \<Rightarrow> error + 'v list list" where
  "sel_basin_time da basin t0 t1 =
     (if basin \<in> set (da_basin da)
      then Inr (map (\<lambda>t. map (\<lambda>v. da_values da v basin t) (da_variable da))
                  (filter (\<lambda>t. t0 \<le> t \<and> t \<le> t1) (da_time da)))
      else Inl KeyError)"

text \<open>\<^verbatim>\<open>c.sel(basin=basin).values\<close>: one value per attribute.\<close>

definition sel_basin_attr :: "('b, 'v) AttrArray \<Rightarrow> 'b \<Rightarrow> error + 'v list" where
  "sel_basin_attr ca basin =
     (if basin \<in> set (attr_basin ca)
      then Inr (map (\<lambda>v. attr_values ca v basin) (attr_variable ca))
      else Inl KeyError)"

text \<open>
  \<^verbatim>\<open>np.concatenate((x, c), axis=1)\<close> of two matrices given by their rows: the row counts
  must agree.
\<close>

definition concatenate_axis1 :: "'v list list \<Rightarrow> 'v list list \<Rightarrow> error + 'v list list" where
  "concatenate_axis1 a b =
     (if length a = length b then Inr (map2 (@) a b) else Inl ValueError)"

text \<open>\<^verbatim>\<open>torch.from_numpy(a).float()\<close>: the element-wise cast \<open>cast\<close> to single precision.\<close>

definition from_numpy_float :: "('v \<Rightarrow> 'w) \<Rightarrow> 'v list list \<Rightarrow> 'w list list" where
  "from_numpy_float cast a = map (map cast) a"

section \<open>BaseDataset\<close>

text \<open>
  The attributes of a \<^verbatim>\<open>BaseDataset\<close> that indexing reads: \<^verbatim>\<open>t_s_dict["sites_id"]\<close>, the
  normalised forcing \<^verbatim>\<open>x\<close>, target \<^verbatim>\<open>y\<close> and attributes \<^verbatim>\<open>c\<close> (possibly \<^verbatim>\<open>None\<close>), the
  mode, the window length \<^verbatim>\<open>rho\<close>, the warmup length, and the lookup table with its size.
  The lookup table is the dictionary \<^verbatim>\<open>dict(enumerate(lookup))\<close>, kept as the list of its
  items in insertion order.
\<close>

record ('b, 'v) BaseDataset =
  ds_sites_id :: "'b list"
  ds_x :: "('b, 'v) DataArray"
  ds_y :: "('b, 'v) DataArray"
  ds_c :: "('b, 'v) AttrArray option"
  ds_train_mode :: bool
  ds_rho :: nat
  ds_warmup_length :: nat
  ds_lookup_table :: "(nat \<times> 'b \<times> int) list"
  ds_num_samples :: nat

text \<open>
  The loop of \<^verbatim>\<open>_create_lookup_table\<close>: for each basin,
  \<^verbatim>\<open>lookup.extend((basin, dates[f]) for f in range(warmup_length, time_length) if f < time_length - rho + 1)\<close>.
  The comparison is Python's, on integers that may be negative.
\<close>

definition lookup_entries :: "'b list \<Rightarrow> int list \<Rightarrow> nat \<Rightarrow> nat \<Rightarrow> ('b \<times> int) list" where
  "lookup_entries basins dates rho warmup_length =
     (let time_length = length dates
      in fold (\<lambda>basin lookup.
                 lookup @ map (\<lambda>f. (basin, dates ! f))
                            (filter (\<lambda>f. int f < int time_length - int rho + 1)
                               [warmup_length..<time_length]))
           basins [])"

text \<open>
  \<^verbatim>\<open>_create_lookup_table\<close>: the dates are the time axis of \<^verbatim>\<open>self.y\<close>; the method sets
  \<^verbatim>\<open>self.lookup_table = dict(enumerate(lookup))\<close> and
  \<^verbatim>\<open>self.num_samples = len(self.lookup_table)\<close>.
\<close>

definition create_lookup_table :: "('b, 'v) BaseDataset \<Rightarrow> ('b, 'v) BaseDataset" where
  "create_lookup_table ds =
     (let lookup = lookup_entries (ds_sites_id ds) (da_time (ds_y ds)) (ds_rho ds)
                     (ds_warmup_length ds);
          lookup_table = enumerate 0 lookup
      in ds\<lparr>ds_lookup_table := lookup_table, ds_num_samples := length lookup_table\<rparr>)"

text \<open>
  \<^verbatim>\<open>BaseDataset.__init__\<close> with the tail of \<^verbatim>\<open>_load_data\<close>. Reading the source data and
  normalising it are the work of the data source and the scaler; their results (the
  sites and the three normalised arrays) are the arguments here. \<^verbatim>\<open>rho\<close> is
  \<^verbatim>\<open>data_params["forecast_history"]\<close>.
\<close>

definition BaseDataset_init ::
    "'b list \<Rightarrow> ('b, 'v) DataArray \<Rightarrow> ('b, 'v) DataArray \<Rightarrow> ('b, 'v) AttrArray option
      \<Rightarrow> nat \<Rightarrow> nat \<Rightarrow> string \<Rightarrow> error + ('b, 'v) BaseDataset" where
  "BaseDataset_init sites_id x y c forecast_history warmup_length loader_type =
     (if loader_type \<in> {''train'', ''valid'', ''test''}
      then Inr (create_lookup_table
                  \<lparr>ds_sites_id = sites_id, ds_x = x, ds_y = y, ds_c = c,
                   ds_train_mode = (loader_type = ''train''),
                   ds_rho = forecast_history, ds_warmup_length = warmup_length,
                   ds_lookup_table = [], ds_num_samples = 0\<rparr>)
      else Inl ValueError)"

text \<open>\<^verbatim>\<open>BaseDataset.__len__\<close>.\<close>

definition BaseDataset_len :: "('b, 'v) BaseDataset \<Rightarrow> nat" where
  "BaseDataset_len ds =
     (if ds_train_mode ds then ds_num_samples ds else length (ds_sites_id ds))"

text \<open>
  The inference branch of \<^verbatim>\<open>BaseDataset.__getitem__\<close> (\<^verbatim>\<open>not self.train_mode\<close>): the whole
  series of the basin at position \<open>item\<close>. With attributes,
  \<^verbatim>\<open>np.repeat(c, x.shape[0], axis=0).reshape(c.shape[0], -1).T\<close> is one copy of the
  attribute row per timestamp; the reshape of an empty attribute row raises.
\<close>

definition getitem_inference ::
    "('v \<Rightarrow> 'w) \<Rightarrow> ('b, 'v) BaseDataset \<Rightarrow> nat \<Rightarrow> error + ('w list list \<times> 'w list list)" where
  "getitem_inference cast ds item =
     (if length (ds_sites_id ds) \<le> item then Inl IndexError
      else
        let basin = ds_sites_id ds ! item
        in case sel_basin (ds_x ds) basin of
             Inl e \<Rightarrow> Inl e
           | Inr x \<Rightarrow>
              (case sel_basin (ds_y ds) basin of
                 Inl e \<Rightarrow> Inl e
               | Inr y \<Rightarrow>
                  (case ds_c ds of
                     None \<Rightarrow> Inr (from_numpy_float cast x, from_numpy_float cast y)
                   | Some ca \<Rightarrow>
                       if length (attr_basin ca) = 0
                       then Inr (from_numpy_float cast x, from_numpy_float cast y)
                       else
                         (case sel_basin_attr ca basin of
                            Inl e \<Rightarrow> Inl e
                          | Inr c \<Rightarrow>
                              if c = [] then Inl ValueError
                              else
                                (case concatenate_axis1 x (replicate (length x) c) of
                                   Inl e \<Rightarrow> Inl e
                                 | Inr xc \<Rightarrow>
                                     Inr (from_numpy_float cast xc,
                                          from_numpy_float cast y))))))"

text \<open>
  The training branch of \<^verbatim>\<open>BaseDataset.__getitem__\<close>: the entry \<^verbatim>\<open>self.lookup_table[item]\<close>
  (a missing key raises), the forcing over the labels
  \<^verbatim>\<open>slice(time - warmup_length days, time + (seq_length - 1) days)\<close>, the attributes tiled
  \<^verbatim>\<open>warmup_length + seq_length\<close> times and concatenated as further columns when
  \<^verbatim>\<open>self.c is not None and self.c.shape[-1] > 0\<close>, and the target over
  \<^verbatim>\<open>slice(time, time + (seq_length - 1) days)\<close>.
\<close>

definition getitem_train ::
    "('v \<Rightarrow> 'w) \<Rightarrow> ('b, 'v) BaseDataset \<Rightarrow> nat \<Rightarrow> error + ('w list list \<times> 'w list list)" where
  "getitem_train cast ds item =
     (case map_of (ds_lookup_table ds) item of
        None \<Rightarrow> Inl KeyError
      | Some (basin, time) \<Rightarrow>
          let seq_length = ds_rho ds; warmup_length = ds_warmup_length ds
          in case sel_basin_time (ds_x ds) basin (time - int warmup_length)
                    (time + (int seq_length - 1)) of
               Inl e \<Rightarrow> Inl e
             | Inr x \<Rightarrow>
                (case (case ds_c ds of
                         None \<Rightarrow> Inr x
                       | Some ca \<Rightarrow>
                           if 0 < length (attr_basin ca)
                           then (case sel_basin_attr ca basin of
                                   Inl e \<Rightarrow> Inl e
                                 | Inr c \<Rightarrow>
                                     concatenate_axis1 x
                                       (replicate (warmup_length + seq_length) c))
                           else Inr x) of
                   Inl e \<Rightarrow> Inl e
                 | Inr xc \<Rightarrow>
                    (case sel_basin_time (ds_y ds) basin time
                            (time + (int seq_length - 1)) of
                       Inl e \<Rightarrow> Inl e
                     | Inr y \<Rightarrow>
                         Inr (from_numpy_float cast xc, from_numpy_float cast y))))"

text \<open>\<^verbatim>\<open>BaseDataset.__getitem__\<close>.\<close>

definition BaseDataset_getitem ::
    "('v \<Rightarrow> 'w) \<Rightarrow> ('b, 'v) BaseDataset \<Rightarrow> nat \<Rightarrow> error + ('w list list \<times> 'w list list)" where
  "BaseDataset_getitem cast ds item =
     (if \<not> ds_train_mode ds then getitem_inference cast ds item
      else getitem_train cast ds item)"

section \<open>BasinSingleFlowDataset\<close>

text \<open>
  \<^verbatim>\<open>BasinSingleFlowDataset.__getitem__\<close>: the base item, with \<^verbatim>\<open>y = ys[-1, :]\<close>; the last
  row of a tensor without rows raises \<^verbatim>\<open>IndexError\<close>.
\<close>

definition BasinSingleFlowDataset_getitem ::
    "('v \<Rightarrow> 'w) \<Rightarrow> ('b, 'v) BaseDataset \<Rightarrow> nat \<Rightarrow> error + ('w list list \<times> 'w list)" where
  "BasinSingleFlowDataset_getitem cast ds index =
     (case BaseDataset_getitem cast ds index of
        Inl e \<Rightarrow> Inl e
      | Inr (xc, ys) \<Rightarrow> if ys = [] then Inl IndexError else Inr (xc, last ys))"

text \<open>\<^verbatim>\<open>BasinSingleFlowDataset.__len__\<close>.\<close>

definition BasinSingleFlowDataset_len :: "('b, 'v) BaseDataset \<Rightarrow> nat" where
  "BasinSingleFlowDataset_len ds = ds_num_samples ds"

text \<open>
  The window starts as the specification words them: the timestamp indices of the axis
  that lie in \<open>[warmup_length, time_length - rho]\<close>, in ascending order.
\<close>

definition spec_window_starts :: "nat \<Rightarrow> nat \<Rightarrow> nat \<Rightarrow> nat list" where
  "spec_window_starts time_length rho warmup_length =
     filter (\<lambda>t. int warmup_length \<le> int t \<and> int t \<le> int time_length - int rho)
       [0..<time_length]"

text \<open>
  The lookup table as the specification words it: units in their given order (outer),
  window starts ascending (inner), ids \<open>0..N-1\<close> in that order.
\<close>

definition spec_lookup_table :: "'b list \<Rightarrow> int list \<Rightarrow> nat \<Rightarrow> nat \<Rightarrow> (nat \<times> 'b \<times> int) list" where
  "spec_lookup_table units dates rho warmup_length =
     (let entries = concat (map (\<lambda>u. map (\<lambda>t. (u, dates ! t))
                                      (spec_window_starts (length dates) rho warmup_length))
                              units)
      in zip [0..<length entries] entries)"

text \<open>A time axis of consecutive days.\<close>

definition daily_axis :: "int list \<Rightarrow> bool" where
  "daily_axis ts = (ts = map (\<lambda>i. hd ts + int i) [0..<length ts])"

text \<open>
  The attribute columns of a basin: empty when the dataset has no attributes (or an
  attribute array without basins).
\<close>

definition attr_columns :: "('b, 'v) BaseDataset \<Rightarrow> 'b \<Rightarrow> 'v list" where
  "attr_columns ds basin =
     (case ds_c ds of
        None \<Rightarrow> []
      | Some ca \<Rightarrow>
          if 0 < length (attr_basin ca) then map (\<lambda>v. attr_values ca v basin) (attr_variable ca)
          else [])"

text \<open>
  The windows of a training sample as the specification words them: the normalised
  forcing sliced over \<open>[time - warmup_length, time + rho - 1]\<close> with the static attributes
  broadcast across the time axis as further input channels, and the normalised target
  sliced over \<open>[time, time + rho - 1]\<close>.
\<close>

definition spec_input_window ::
    "('v \<Rightarrow> 'w) \<Rightarrow> ('b, 'v) BaseDataset \<Rightarrow> 'b \<Rightarrow> int \<Rightarrow> 'w list list" where
  "spec_input_window cast ds basin time =
     map (\<lambda>t. map cast (map (\<lambda>v. da_values (ds_x ds) v basin t) (da_variable (ds_x ds))
                         @ attr_columns ds basin))
       (filter (\<lambda>t. time - int (ds_warmup_length ds) \<le> t \<and> t \<le> time + int (ds_rho ds) - 1)
          (da_time (ds_x ds)))"

definition spec_target_window ::
    "('v \<Rightarrow> 'w) \<Rightarrow> ('b, 'v) BaseDataset \<Rightarrow> 'b \<Rightarrow> int \<Rightarrow> 'w list list" where
  "spec_target_window cast ds basin time =
     map (\<lambda>t. map cast (map (\<lambda>v. da_values (ds_y ds) v basin t) (da_variable (ds_y ds))))
       (filter (\<lambda>t. time \<le> t \<and> t \<le> time + int (ds_rho ds) - 1) (da_time (ds_y ds)))"

text \<open>
  The arrays handed to a dataset are read for the same sites and the same period: the
  forcing and the target share a time axis of consecutive days, and every site is a basin
  of each array.
\<close>

definition arrays_aligned ::
    "'b list \<Rightarrow> ('b, 'v) DataArray \<Rightarrow> ('b, 'v) DataArray \<Rightarrow> ('b, 'v) AttrArray option \<Rightarrow> bool" where
  "arrays_aligned sites_id x y c =
     (daily_axis (da_time y) \<and> da_time x = da_time y
      \<and> list_all (\<lambda>b. b \<in> set (da_basin x) \<and> b \<in> set (da_basin y)) sites_id
      \<and> (case c of None \<Rightarrow> True
          | Some ca \<Rightarrow> list_all (\<lambda>b. b \<in> set (attr_basin ca)) sites_id))"

section \<open>DplDataset\<close>

text \<open>
  A \<^verbatim>\<open>DplDataset\<close> is a \<^verbatim>\<open>BaseDataset\<close> with the flags \<^verbatim>\<open>target_as_input\<close> and
  \<^verbatim>\<open>constant_only\<close> and, when one was built, the held \<^verbatim>\<open>train_dataset\<close> (itself a
  \<^verbatim>\<open>DplDataset\<close>); \<open>None\<close> stands for the attribute never having been set.
\<close>

datatype ('b, 'v) DplDataset =
  DplDataset
    (dpl_base: "('b, 'v) BaseDataset")
    (dpl_target_as_input: bool)
    (dpl_constant_only: bool)
    (dpl_train_dataset: "('b, 'v) DplDataset option")

text \<open>
  \<^verbatim>\<open>DplDataset.__init__\<close>. What the data source and the scaler deliver depends on the
  loader type (the training period or the evaluation period): \<open>source\<close> maps a loader type
  to the sites and the normalised arrays. With \<^verbatim>\<open>target_as_input\<close> outside train mode the
  constructor calls itself with \<^verbatim>\<open>loader_type="train"\<close>.
\<close>

function DplDataset_init ::
    "(string \<Rightarrow> 'b list \<times> ('b, 'v) DataArray \<times> ('b, 'v) DataArray \<times> ('b, 'v) AttrArray option)
      \<Rightarrow> nat \<Rightarrow> nat \<Rightarrow> bool \<Rightarrow> bool \<Rightarrow> string \<Rightarrow> error + ('b, 'v) DplDataset" where
  "DplDataset_init source forecast_history warmup_length target_as_input constant_only
       loader_type =
     (case source loader_type of
        (sites_id, x, y, c) \<Rightarrow>
          (case BaseDataset_init sites_id x y c forecast_history warmup_length loader_type of
             Inl e \<Rightarrow> Inl e
           | Inr base \<Rightarrow>
               if target_as_input \<and> \<not> ds_train_mode base
               then (case DplDataset_init source forecast_history warmup_length
                            target_as_input constant_only ''train'' of
                       Inl e \<Rightarrow> Inl e
                     | Inr train_dataset \<Rightarrow>
                         Inr (DplDataset base target_as_input constant_only
                                (Some train_dataset)))
               else Inr (DplDataset base target_as_input constant_only None)))"
  by pat_completeness auto
termination
  by (relation "measure (\<lambda>(source, forecast_history, warmup_length, target_as_input,
                           constant_only, loader_type).
                          if loader_type = ''train'' then 0 else 1)")
     (auto simp: BaseDataset_init_def create_lookup_table_def Let_def split: if_splits)

text \<open>
  The attribute names of a \<^verbatim>\<open>DplDataset\<close> object: those assigned in
  \<^verbatim>\<open>BaseDataset.__init__\<close>, \<^verbatim>\<open>_load_data\<close>, \<^verbatim>\<open>_create_lookup_table\<close> and
  \<^verbatim>\<open>DplDataset.__init__\<close>, and the methods of the two classes. \<^verbatim>\<open>train_dataset\<close> is among
  them only when it was assigned.
\<close>

definition DplDataset_attributes :: "('b, 'v) DplDataset \<Rightarrow> string list" where
  "DplDataset_attributes dpl =
     [''data_source'', ''data_params'', ''loader_type'', ''t_s_dict'', ''x_origin'',
      ''y_origin'', ''c_origin'', ''x'', ''y'', ''c'', ''train_mode'', ''rho'',
      ''target_scaler'', ''warmup_length'', ''lookup_table'', ''num_samples'',
      ''target_as_input'', ''constant_only'',
      ''__len__'', ''__getitem__'', ''_load_data'', ''_trans2da_and_setunits'', ''kill_nan'',
      ''_create_lookup_table'']
     @ (case dpl_train_dataset dpl of None \<Rightarrow> [] | Some _ \<Rightarrow> [''train_dataset''])"

text \<open>Attribute access \<^verbatim>\<open>obj.name\<close> on a \<^verbatim>\<open>DplDataset\<close>: an unknown name raises.\<close>

definition DplDataset_getattr :: "('b, 'v) DplDataset \<Rightarrow> string \<Rightarrow> error + unit" where
  "DplDataset_getattr dpl name =
     (if name \<in> set (DplDataset_attributes dpl) then Inr () else Inl AttributeError)"

text \<open>
  The start of the inference branch of \<^verbatim>\<open>DplDataset.__getitem__\<close>, up to the value of
  \<^verbatim>\<open>x_norm\<close>:
  \<^verbatim>\<open>basin = self.t_s_dict["sites_id"][item]\<close>,
  \<^verbatim>\<open>x_norm = self.x.sel(basin=basin).to_numpy().T\<close> and, with \<^verbatim>\<open>target_as_input\<close>,
  \<^verbatim>\<open>x_norm = self.train_dataset.sel(basin=basin).to_numpy().T\<close>. The last line looks up
  \<^verbatim>\<open>train_dataset\<close> on \<^verbatim>\<open>self\<close> and then \<^verbatim>\<open>sel\<close> on the held dataset (not on its array
  \<^verbatim>\<open>x\<close>); only if both lookups succeed is the held dataset's series selected.
\<close>

definition DplDataset_getitem_inference_x_norm ::
    "('b, 'v) DplDataset \<Rightarrow> nat \<Rightarrow> error + 'v list list" where
  "DplDataset_getitem_inference_x_norm dpl item =
     (let ds = dpl_base dpl
      in if length (ds_sites_id ds) \<le> item then Inl IndexError
         else
           let basin = ds_sites_id ds ! item
           in case sel_basin (ds_x ds) basin of
                Inl e \<Rightarrow> Inl e
              | Inr x_norm \<Rightarrow>
                  if dpl_target_as_input dpl
                  then (case DplDataset_getattr dpl ''train_dataset'' of
                          Inl e \<Rightarrow> Inl e
                        | Inr _ \<Rightarrow>
                            (case dpl_train_dataset dpl of
                               None \<Rightarrow> Inl AttributeError
                             | Some train_dataset \<Rightarrow>
                                 (case DplDataset_getattr train_dataset ''sel'' of
                                    Inl e \<Rightarrow> Inl e
                                  | Inr _ \<Rightarrow>
                                      sel_basin (ds_x (dpl_base train_dataset)) basin)))
                  else Inr x_norm)"

section \<open>Persistence of statistics\<close>

text \<open>
  The run directory is part of a file system. A path names a file, and several paths
  (\<^verbatim>\<open>run/x\<close>, \<^verbatim>\<open>./run/x\<close>, an absolute path, a link) can name the same file: \<open>fs_resolve\<close>
  gives the file that a path names, whether or not it exists, and \<open>fs_files\<close> gives the
  contents of the files that exist. A file holds either the JSON text of a statistics
  record or a pickled fitted scaler; \<^verbatim>\<open>json.load\<close> of a dumped record gives the record back,
  and loading a file of the other kind fails. Directories are not modelled: the run
  directory exists, and no path names a directory.
\<close>

datatype ('st, 'sc) file_content = Json 'st | Pickle 'sc

record ('i, 'st, 'sc) filesystem =
  fs_resolve :: "string \<Rightarrow> 'i"
  fs_files :: "'i \<Rightarrow> ('st, 'sc) file_content option"

text \<open>The contents at a path; \<open>None\<close> when no file is there (\<^verbatim>\<open>os.path.isfile\<close> is false).\<close>

definition read_file :: "('i, 'st, 'sc) filesystem \<Rightarrow> string \<Rightarrow> ('st, 'sc) file_content option" where
  "read_file fs path = fs_files fs (fs_resolve fs path)"

text \<open>Writing a file at a path (\<^verbatim>\<open>open(path, "w")\<close> and a dump).\<close>

definition write_file ::
    "('i, 'st, 'sc) filesystem \<Rightarrow> string \<Rightarrow> ('st, 'sc) file_content \<Rightarrow> ('i, 'st, 'sc) filesystem" where
  "write_file fs path content = fs\<lparr>fs_files := (fs_files fs)(fs_resolve fs path \<mapsto> content)\<rparr>"

text \<open>\<^verbatim>\<open>os.path.join(a, b)\<close> for a relative \<open>b\<close>.\<close>

definition path_join :: "string \<Rightarrow> string \<Rightarrow> string" where
  "path_join a b =
     (if a = [] then b else if last a = CHR ''/'' then a @ b else a @ ''/'' @ b)"

text \<open>
  \<^verbatim>\<open>shutil.copy(src, dst)\<close>: a missing source raises \<^verbatim>\<open>FileNotFoundError\<close>; a source and a
  destination that name the same existing file raise \<^verbatim>\<open>SameFileError\<close>, however the two
  paths are spelled.
\<close>

definition shutil_copy ::
    "string \<Rightarrow> string \<Rightarrow> ('i, 'st, 'sc) filesystem \<Rightarrow> error + ('i, 'st, 'sc) filesystem" where
  "shutil_copy src dst fs =
     (case read_file fs src of
        None \<Rightarrow> Inl FileNotFoundError
      | Some content \<Rightarrow>
          if fs_resolve fs src = fs_resolve fs dst then Inl SameFileError
          else Inr (write_file fs dst content))"

definition json_load :: "('st, 'sc) file_content \<Rightarrow> error + 'st" where
  "json_load content = (case content of Json st \<Rightarrow> Inr st | Pickle _ \<Rightarrow> Inl JSONDecodeError)"

definition pkl_load :: "('st, 'sc) file_content \<Rightarrow> error + 'sc" where
  "pkl_load content = (case content of Pickle sc \<Rightarrow> Inr sc | Json _ \<Rightarrow> Inl UnpicklingError)"

text \<open>
  The end of \<^verbatim>\<open>DapengScaler.__init__\<close>, which sets \<^verbatim>\<open>self.stat_dict\<close>: train mode without
  an external file computes the statistics (\<^verbatim>\<open>cal_stat_all\<close>, here a function of the data
  handed to the scaler) and writes them; every other case copies the external file, when
  one is given, to \<^verbatim>\<open>stat_file\<close>, asserts that \<^verbatim>\<open>stat_file\<close> exists and loads it. The result
  is the statistics record and the file system afterwards.
\<close>

definition DapengScaler_init_stat_dict ::
    "('d \<Rightarrow> 'st) \<Rightarrow> 'd \<Rightarrow> string \<Rightarrow> string \<Rightarrow> string option \<Rightarrow> ('i, 'st, 'sc) filesystem
      \<Rightarrow> error + ('st \<times> ('i, 'st, 'sc) filesystem)" where
  "DapengScaler_init_stat_dict cal_stat_all data loader_type test_path stat_dict_file fs =
     (let stat_file = path_join test_path ''dapengscaler_stat.json''
      in if loader_type = ''train'' \<and> stat_dict_file = None
         then
           let stat_dict = cal_stat_all data
           in Inr (stat_dict, write_file fs stat_file (Json stat_dict))
         else
           (case (case stat_dict_file of
                    None \<Rightarrow> Inr fs
                  | Some external \<Rightarrow> shutil_copy external stat_file fs) of
              Inl e \<Rightarrow> Inl e
            | Inr fs' \<Rightarrow>
                (case read_file fs' stat_file of
                   None \<Rightarrow> Inl AssertionError
                 | Some content \<Rightarrow>
                     (case json_load content of
                        Inl e \<Rightarrow> Inl e
                      | Inr stat_dict \<Rightarrow> Inr (stat_dict, fs')))))"

text \<open>
  One pass of the loop of \<^verbatim>\<open>ScalerHub.__init__\<close> over a tensor group (the generic
  strategies): \<open>fit\<close> and \<open>transform\<close> are the strategy's, \<open>norm_key\<close> names the group,
  \<open>three_dim\<close> says whether \<^verbatim>\<open>data_tmp.ndim == 3\<close>. Train mode without an external file fits,
  transforms and pickles the scaler; every other case copies the external file, when one is
  given, to \<^verbatim>\<open>save_file\<close>, and a missing \<^verbatim>\<open>save_file\<close> raises \<^verbatim>\<open>FileNotFoundError\<close> (three
  dimensions) or fails the assertion (attributes); the loaded scaler transforms the data.
  The result is the normalised data, the scaler and the file system afterwards.
\<close>

definition ScalerHub_group ::
    "('d \<Rightarrow> 'sc) \<Rightarrow> ('sc \<Rightarrow> 'd \<Rightarrow> 'n) \<Rightarrow> string \<Rightarrow> bool \<Rightarrow> 'd \<Rightarrow> string \<Rightarrow> string \<Rightarrow> string option
      \<Rightarrow> ('i, 'st, 'sc) filesystem \<Rightarrow> error + (('n \<times> 'sc) \<times> ('i, 'st, 'sc) filesystem)" where
  "ScalerHub_group fit transform norm_key three_dim data_tmp loader_type test_path stat_dict_file fs =
     (let save_file = path_join test_path (norm_key @ ''_scaler.pkl'')
      in if loader_type = ''train'' \<and> stat_dict_file = None
         then
           let scaler = fit data_tmp
           in Inr ((transform scaler data_tmp, scaler), write_file fs save_file (Pickle scaler))
         else
           (case (case stat_dict_file of
                    None \<Rightarrow> Inr fs
                  | Some external \<Rightarrow> shutil_copy external save_file fs) of
              Inl e \<Rightarrow> Inl e
            | Inr fs' \<Rightarrow>
                (case read_file fs' save_file of
                   None \<Rightarrow> Inl (if three_dim then FileNotFoundError else AssertionError)
                 | Some content \<Rightarrow>
                     (case pkl_load content of
                        Inl e \<Rightarrow> Inl e
                      | Inr scaler \<Rightarrow> Inr ((transform scaler data_tmp, scaler), fs')))))"

section \<open>Normalisation of the targets\<close>

text \<open>
  A float is a real number or not a number (\<open>None\<close>, which also stands for the
  infinities): arithmetic on \<open>None\<close> gives \<open>None\<close>.
\<close>

type_synonym float = "real option"

text \<open>\<^verbatim>\<open>xr.full_like(data, np.nan)\<close>: the coordinates of \<open>data\<close>, every value NaN.\<close>

definition full_like_nan :: "('b, float) DataArray \<Rightarrow> ('b, float) DataArray" where
  "full_like_nan data = data\<lparr>da_values := (\<lambda>v b t. None)\<rparr>"

text \<open>
  \<^verbatim>\<open>DapengScaler.get_data_obs\<close>. The helpers \<^verbatim>\<open>_trans_norm\<close> and \<^verbatim>\<open>_prcp_norm\<close> of
  \<^verbatim>\<open>data_utils\<close> are arguments, as is the statistics record and the mean precipitation
  \<^verbatim>\<open>mean_prep\<close> read from the data source. \<^verbatim>\<open>out\<close> starts as NaN everywhere; the loop over
  \<^verbatim>\<open>target_cols\<close> assigns \<^verbatim>\<open>out.loc[dict(variable=var)]\<close> for the variables in
  \<^verbatim>\<open>prcp_norm_cols\<close> only; \<^verbatim>\<open>_trans_norm\<close> is then applied to \<^verbatim>\<open>out\<close>. The unit annotations
  are left out.
\<close>

definition get_data_obs ::
    "(('b, float) DataArray \<Rightarrow> string list \<Rightarrow> 'st \<Rightarrow> string list \<Rightarrow> bool \<Rightarrow> ('b, float) DataArray)
      \<Rightarrow> (('b \<Rightarrow> int \<Rightarrow> float) \<Rightarrow> ('b \<Rightarrow> float) \<Rightarrow> bool \<Rightarrow> ('b \<Rightarrow> int \<Rightarrow> float))
      \<Rightarrow> 'st \<Rightarrow> string list \<Rightarrow> string list \<Rightarrow> ('b \<Rightarrow> float) \<Rightarrow> string list
      \<Rightarrow> ('b, float) DataArray \<Rightarrow> bool \<Rightarrow> error + ('b, float) DataArray" where
  "get_data_obs trans_norm prcp_norm stat_dict prcp_norm_cols log_norm_cols mean_prep
       target_cols data to_norm =
     (case fold (\<lambda>var r.
                   case r of
                     Inl e \<Rightarrow> Inl e
                   | Inr out \<Rightarrow>
                       if var \<in> set prcp_norm_cols
                       then
                         if var \<in> set (da_variable data)
                         then Inr (out\<lparr>da_values :=
                                    (da_values out)
                                      (var := prcp_norm (da_values data var) mean_prep True)\<rparr>)
                         else Inl KeyError
                       else Inr out)
             target_cols (Inr (full_like_nan data)) of
        Inl e \<Rightarrow> Inl e
      | Inr out \<Rightarrow> Inr (trans_norm out target_cols stat_dict log_norm_cols to_norm))"

text \<open>
  \<^verbatim>\<open>DapengScaler.inverse_transform\<close>: with \<^verbatim>\<open>pbm_norm\<close> the values are returned as they
  are; otherwise \<^verbatim>\<open>_trans_norm\<close> with \<^verbatim>\<open>to_norm=False\<close>, then \<^verbatim>\<open>_prcp_norm\<close> with
  \<^verbatim>\<open>to_norm=False\<close> for the target variables in \<^verbatim>\<open>prcp_norm_cols\<close>. The final unit
  conversion \<^verbatim>\<open>unify_streamflow_unit(pred_ds, area=area, inverse=True)\<close> is the argument
  \<open>unify\<close>.
\<close>

definition inverse_transform ::
    "(('b, float) DataArray \<Rightarrow> string list \<Rightarrow> 'st \<Rightarrow> string list \<Rightarrow> bool \<Rightarrow> ('b, float) DataArray)
      \<Rightarrow> (('b \<Rightarrow> int \<Rightarrow> float) \<Rightarrow> ('b \<Rightarrow> float) \<Rightarrow> bool \<Rightarrow> ('b \<Rightarrow> int \<Rightarrow> float))
      \<Rightarrow> (('b, float) DataArray \<Rightarrow> 'r)
      \<Rightarrow> 'st \<Rightarrow> string list \<Rightarrow> string list \<Rightarrow> ('b \<Rightarrow> float) \<Rightarrow> string list \<Rightarrow> bool
      \<Rightarrow> ('b, float) DataArray \<Rightarrow> error + 'r" where
  "inverse_transform trans_norm prcp_norm unify stat_dict prcp_norm_cols log_norm_cols
       mean_prep target_cols pbm_norm target_values =
     (case (if pbm_norm then Inr target_values
            else
              fold (\<lambda>var r.
                      case r of
                        Inl e \<Rightarrow> Inl e
                      | Inr pred \<Rightarrow>
                          if var \<in> set prcp_norm_cols
                          then
                            if var \<in> set (da_variable pred)
                            then Inr (pred\<lparr>da_values :=
                                       (da_values pred)
                                         (var := prcp_norm (da_values pred var) mean_prep
                                                   False)\<rparr>)
                            else Inl KeyError
                          else Inr pred)
                target_cols
                (Inr (trans_norm target_values target_cols stat_dict log_norm_cols False))) of
        Inl e \<Rightarrow> Inl e
      | Inr pred \<Rightarrow> Inr (unify pred))"

subsection \<open>The transforms\<close>

text \<open>
  Modelled from the spec: the helpers \<^verbatim>\<open>_trans_norm\<close> and \<^verbatim>\<open>_prcp_norm\<close> of
  \<^verbatim>\<open>torchhydro/datasets/data_utils.py\<close>, which is not among the sources. The
  specification (NormalizationTransform) gives, for a statistic (mean, std):
  plain \<open>(x - mean) / std\<close> and back \<open>z * std + mean\<close>; gamma \<open>log (sqrt x + 0.1)\<close> before
  the plain transform and \<open>(exp z - 0.1)\<^sup>2\<close> after the plain inverse; ratio-to-reference
  division by the per-unit reference before, multiplication by it after.
\<close>

definition spec_plain_forward :: "real \<times> real \<Rightarrow> real \<Rightarrow> real" where
  "spec_plain_forward stat x = (x - fst stat) / snd stat"

definition spec_plain_inverse :: "real \<times> real \<Rightarrow> real \<Rightarrow> real" where
  "spec_plain_inverse stat z = z * snd stat + fst stat"

definition spec_gamma_forward :: "real \<times> real \<Rightarrow> real \<Rightarrow> real" where
  "spec_gamma_forward stat x = spec_plain_forward stat (ln (sqrt x + 1 / 10))"

definition spec_gamma_inverse :: "real \<times> real \<Rightarrow> real \<Rightarrow> real" where
  "spec_gamma_inverse stat z = (exp (spec_plain_inverse stat z) - 1 / 10)\<^sup>2"

definition spec_ratio_forward :: "real \<times> real \<Rightarrow> real \<Rightarrow> real \<Rightarrow> real" where
  "spec_ratio_forward stat reference x = spec_plain_forward stat (x / reference)"

definition spec_ratio_inverse :: "real \<times> real \<Rightarrow> real \<Rightarrow> real \<Rightarrow> real" where
  "spec_ratio_inverse stat reference z = spec_plain_inverse stat z * reference"

text \<open>
  Modelled from the spec: \<^verbatim>\<open>_trans_norm\<close> applies, to each listed variable, the gamma
  transform when the variable is a log-norm column and the plain transform otherwise, in
  the direction \<^verbatim>\<open>to_norm\<close>; NaN stays NaN.
\<close>

definition spec_trans_norm ::
    "('b, float) DataArray \<Rightarrow> string list \<Rightarrow> (string \<Rightarrow> real \<times> real) \<Rightarrow> string list \<Rightarrow> bool
      \<Rightarrow> ('b, float) DataArray" where
  "spec_trans_norm x var_lst stat_dict log_norm_cols to_norm =
     x\<lparr>da_values :=
         (\<lambda>v b t.
            if v \<in> set var_lst
            then map_option
                   (if v \<in> set log_norm_cols
                    then (if to_norm then spec_gamma_forward (stat_dict v)
                          else spec_gamma_inverse (stat_dict v))
                    else (if to_norm then spec_plain_forward (stat_dict v)
                          else spec_plain_inverse (stat_dict v)))
                   (da_values x v b t)
            else da_values x v b t)\<rparr>"

text \<open>
  Modelled from the spec: \<^verbatim>\<open>_prcp_norm\<close> divides by the per-unit reference on the way
  in and multiplies by it on the way out.
\<close>

definition spec_prcp_norm ::
    "('b \<Rightarrow> int \<Rightarrow> float) \<Rightarrow> ('b \<Rightarrow> float) \<Rightarrow> bool \<Rightarrow> ('b \<Rightarrow> int \<Rightarrow> float)" where
  "spec_prcp_norm x mean_prep to_norm =
     (\<lambda>b t. case (x b t, mean_prep b) of
               (Some v, Some m) \<Rightarrow>
                 if to_norm then (if m = 0 then None else Some (v / m)) else Some (v * m)
             | _ \<Rightarrow> None)"

section \<open>A small dataset\<close>

text \<open>
  Three basins over ten consecutive days, one forcing variable, one target variable and
  two static attributes; used to run the definitions on concrete input.
\<close>

definition example_sites :: "string list" where
  "example_sites = [''b1'', ''b2'', ''b3'']"

definition example_dates :: "int list" where
  "example_dates = [0, 1, 2, 3, 4, 5, 6, 7, 8, 9]"

definition example_x :: "(string, int) DataArray" where
  "example_x = \<lparr>da_variable = [''prcp''], da_basin = example_sites, da_time = example_dates,
                 da_values = (\<lambda>v b t. t)\<rparr>"

definition example_y :: "(string, int) DataArray" where
  "example_y = \<lparr>da_variable = [''streamflow''], da_basin = example_sites,
                 da_time = example_dates, da_values = (\<lambda>v b t. 100 + t)\<rparr>"

definition example_c :: "(string, int) AttrArray" where
  "example_c = \<lparr>attr_variable = [''area'', ''slope''], attr_basin = example_sites,
                 attr_values = (\<lambda>v b. if v = ''area'' then 7 else 8)\<rparr>"

text \<open>
  A data source for the example: the same sites and attributes for every loader type, the
  evaluation period being the last four days.
\<close>

definition example_source ::
    "string \<Rightarrow> string list \<times> (string, int) DataArray \<times> (string, int) DataArray
       \<times> (string, int) AttrArray option" where
  "example_source loader_type =
     (if loader_type = ''train''
      then (example_sites, example_x, example_y, Some example_c)
      else (example_sites, example_x\<lparr>da_time := [6, 7, 8, 9]\<rparr>,
            example_y\<lparr>da_time := [6, 7, 8, 9]\<rparr>, Some example_c))"

text \<open>
  Two observed series of one basin over two days for the target variable
  \<^verbatim>\<open>evapotranspiration\<close>, which is not a \<^verbatim>\<open>prcp_norm\<close> column: the values \<open>1, 2\<close> and
  \<open>5, 6\<close>.
\<close>

definition example_target :: "real \<Rightarrow> (string, float) DataArray" where
  "example_target v0 =
     \<lparr>da_variable = [''evapotranspiration''], da_basin = [''b1''], da_time = [0, 1],
      da_values = (\<lambda>v b t. Some (v0 + real_of_int t))\<rparr>"

text \<open>The values of an array as nested lists: variable, basin, time.\<close>

definition to_numpy :: "('b, 'v) DataArray \<Rightarrow> 'v list list list" where
  "to_numpy da =
     map (\<lambda>v. map (\<lambda>b. map (\<lambda>t. da_values da v b t) (da_time da)) (da_basin da))
       (da_variable da)"

text \<open>
  A file system in which a leading \<^verbatim>\<open>./\<close> does not change the file a path names, with and
  without a statistics record in the run directory \<^verbatim>\<open>run\<close>.
\<close>

definition example_resolve :: "string \<Rightarrow> string" where
  "example_resolve path = (if take 2 path = ''./'' then drop 2 path else path)"

definition example_fs_empty :: "(string, nat, nat) filesystem" where
  "example_fs_empty = \<lparr>fs_resolve = example_resolve, fs_files = Map.empty\<rparr>"

definition example_fs :: "(string, nat, nat) filesystem" where
  "example_fs =
     \<lparr>fs_resolve = example_resolve,
      fs_files = [''run/dapengscaler_stat.json'' \<mapsto> Json 7, ''pub/stat.json'' \<mapsto> Json 9]\<rparr>"
section \<open>Properties of the sampler\<close>






subsection \<open>Shrink loop\<close>




section \<open>Properties of the lookup table\<close>

lemma fold_append_concat:
  "fold (\<lambda>b acc. acc @ g b) bs init = init @ concat (map g bs)"
  by (induction bs arbitrary: init) simp_all

lemma filter_less_upt: "filter (\<lambda>f. f < k) [a..<n] = [a..<min n k]"
proof (induction n)
  case 0
  then show ?case by simp
next
  case (Suc n)
  show ?case
  proof (cases "a \<le> n")
    case False
    then show ?thesis by simp
  next
    case True
    show ?thesis
    proof (cases "n < k")
      case True
      with \<open>a \<le> n\<close> Suc show ?thesis by (simp add: min_def)
    next
      case False
      with \<open>a \<le> n\<close> Suc show ?thesis by (simp add: min_def)
    qed
  qed
qed

lemma filter_between_upt: "filter (\<lambda>t. a \<le> t \<and> t < k) [0..<n] = [a..<min n k]"
proof (induction n)
  case 0
  then show ?case by simp
next
  case (Suc n)
  show ?case
  proof (cases "a \<le> n \<and> n < k")
    case True
    with Suc show ?thesis by (simp add: min_def)
  next
    case False
    with Suc show ?thesis by (auto simp: min_def)
  qed
qed

text \<open>The number of window starts on an axis, as the loop's filter leaves them.\<close>

lemma source_window_starts:
  "filter (\<lambda>f. int f < int nt - int rho + 1) [w..<nt]
     = [w..<min nt (nat (int nt - int rho + 1))]"
proof -
  have "(\<lambda>f. int f < int nt - int rho + 1) = (\<lambda>f. f < nat (int nt - int rho + 1))"
    by (rule ext) linarith
  then show ?thesis by (simp only: filter_less_upt)
qed

lemma spec_window_starts_upt:
  "spec_window_starts nt rho w = [w..<min nt (nat (int nt - int rho + 1))]"
proof -
  have "(\<lambda>t. int w \<le> int t \<and> int t \<le> int nt - int rho)
      = (\<lambda>t. w \<le> t \<and> t < nat (int nt - int rho + 1))"
    by (rule ext) linarith
  then show ?thesis unfolding spec_window_starts_def by (simp only: filter_between_upt)
qed

lemma length_spec_window_starts:
  "length (spec_window_starts nt rho w) = min nt (nat (int nt - int rho + 1)) - w"
  by (simp add: spec_window_starts_upt)

lemma nth_spec_window_starts:
  assumes "j < length (spec_window_starts nt rho w)"
  shows "spec_window_starts nt rho w ! j = w + j"
proof -
  from assms have "w + j < min nt (nat (int nt - int rho + 1))"
    unfolding spec_window_starts_upt length_upt by linarith
  then show ?thesis unfolding spec_window_starts_upt by (rule nth_upt)
qed

lemma set_spec_window_starts:
  "f \<in> set (spec_window_starts nt rho w)
     \<longleftrightarrow> w \<le> f \<and> f < nt \<and> int f \<le> int nt - int rho"
  unfolding spec_window_starts_def by auto

lemma lookup_entries_concat:
  "lookup_entries basins dates rho w
     = concat (map (\<lambda>u. map (\<lambda>t. (u, dates ! t)) (spec_window_starts (length dates) rho w))
                 basins)"
  unfolding lookup_entries_def Let_def
  by (simp only: fold_append_concat source_window_starts spec_window_starts_upt append_Nil)

lemma length_concat_uniform:
  "(\<And>x. x \<in> set xs \<Longrightarrow> length (g x) = m) \<Longrightarrow> length (concat (map g xs)) = length xs * m"
  by (induction xs) simp_all

lemma nth_concat_uniform:
  assumes "\<And>x. x \<in> set xs \<Longrightarrow> length (g x) = m" and "k < length xs * m"
  shows "concat (map g xs) ! k = g (xs ! (k div m)) ! (k mod m)"
  using assms
proof (induction xs arbitrary: k)
  case Nil
  then show ?case by simp
next
  case (Cons x xs)
  have m: "0 < m" using Cons.prems(2) by (cases m) simp_all
  have lx: "length (g x) = m" using Cons.prems(1) by simp
  show ?case
  proof (cases "k < m")
    case True
    then show ?thesis by (simp add: nth_append lx)
  next
    case False
    then have km: "m \<le> k" by simp
    have "k - m < length xs * m" using Cons.prems(2) km by simp
    from Cons.IH [OF _ this] Cons.prems(1)
    have ih: "concat (map g xs) ! (k - m) = g (xs ! ((k - m) div m)) ! ((k - m) mod m)"
      by simp
    have d: "k div m = Suc ((k - m) div m)" using km m by (simp add: le_div_geq)
    have r: "k mod m = (k - m) mod m" using km by (simp add: le_mod_geq)
    show ?thesis using False by (simp add: nth_append lx ih d r)
  qed
qed

lemma length_lookup_entries:
  "length (lookup_entries basins dates rho w)
     = length basins * length (spec_window_starts (length dates) rho w)"
  unfolding lookup_entries_concat by (rule length_concat_uniform) simp

lemma nth_lookup_entries:
  assumes "k < length basins * length (spec_window_starts (length dates) rho w)"
  shows "lookup_entries basins dates rho w ! k
     = (basins ! (k div length (spec_window_starts (length dates) rho w)),
        dates ! (w + k mod length (spec_window_starts (length dates) rho w)))"
proof -
  let ?m = "length (spec_window_starts (length dates) rho w)"
  let ?g = "\<lambda>u. map (\<lambda>t. (u, dates ! t)) (spec_window_starts (length dates) rho w)"
  have m: "0 < ?m" using assms by (cases ?m) simp_all
  then have r: "k mod ?m < ?m" by simp
  have "lookup_entries basins dates rho w ! k = ?g (basins ! (k div ?m)) ! (k mod ?m)"
    unfolding lookup_entries_concat using assms by (intro nth_concat_uniform) simp_all
  also have "\<dots> = (basins ! (k div ?m), dates ! (w + k mod ?m))"
    using r by (simp add: nth_spec_window_starts)
  finally show ?thesis .
qed

lemma map_of_enumerate:
  "map_of (enumerate 0 xs) k = (if k < length xs then Some (xs ! k) else None)"
proof (cases "k < length xs")
  case True
  have "map_of (zip [0..<length xs] xs) ([0..<length xs] ! k) = Some (xs ! k)"
    using True by (intro map_of_zip_nth) simp_all
  with True show ?thesis by (simp add: enumerate_eq_zip)
next
  case False
  have "set (map fst (enumerate 0 xs)) = {0..<length xs}"
    unfolding map_fst_enumerate by simp
  then have "fst ` set (enumerate 0 xs) = {0..<length xs}"
    unfolding set_map .
  then have "k \<notin> fst ` set (enumerate 0 xs)" using False by simp
  then have "map_of (enumerate 0 xs) k = None" by (simp add: map_of_eq_None_iff)
  with False show ?thesis by simp
qed

lemma create_lookup_table_fields:
  "ds_lookup_table (create_lookup_table ds)
     = enumerate 0 (lookup_entries (ds_sites_id ds) (da_time (ds_y ds)) (ds_rho ds)
                      (ds_warmup_length ds))"
  "ds_num_samples (create_lookup_table ds)
     = length (lookup_entries (ds_sites_id ds) (da_time (ds_y ds)) (ds_rho ds)
                 (ds_warmup_length ds))"
  "ds_sites_id (create_lookup_table ds) = ds_sites_id ds"
  "ds_x (create_lookup_table ds) = ds_x ds"
  "ds_y (create_lookup_table ds) = ds_y ds"
  "ds_c (create_lookup_table ds) = ds_c ds"
  "ds_train_mode (create_lookup_table ds) = ds_train_mode ds"
  "ds_rho (create_lookup_table ds) = ds_rho ds"
  "ds_warmup_length (create_lookup_table ds) = ds_warmup_length ds"
  by (simp_all add: create_lookup_table_def Let_def)

lemma lookup_table_entry:
  assumes "k < ds_num_samples (create_lookup_table ds)"
  shows "map_of (ds_lookup_table (create_lookup_table ds)) k
     = Some (ds_sites_id ds
               ! (k div length (spec_window_starts (length (da_time (ds_y ds))) (ds_rho ds)
                                  (ds_warmup_length ds))),
             da_time (ds_y ds)
               ! (ds_warmup_length ds
                  + k mod length (spec_window_starts (length (da_time (ds_y ds))) (ds_rho ds)
                                    (ds_warmup_length ds))))"
proof -
  from assms have "k < length (ds_sites_id ds)
      * length (spec_window_starts (length (da_time (ds_y ds))) (ds_rho ds)
                  (ds_warmup_length ds))"
    by (simp only: create_lookup_table_fields length_lookup_entries)
  from nth_lookup_entries [OF this] assms show ?thesis
    by (simp add: create_lookup_table_fields map_of_enumerate)
qed

lemma BaseDataset_init_fields:
  assumes "BaseDataset_init sites_id x y c rho w loader_type = Inr ds"
  shows "ds_sites_id ds = sites_id" and "ds_x ds = x" and "ds_y ds = y" and "ds_c ds = c"
    and "ds_rho ds = rho" and "ds_warmup_length ds = w"
    and "ds_train_mode ds = (loader_type = ''train'')"
    and "ds_lookup_table ds = enumerate 0 (lookup_entries sites_id (da_time y) rho w)"
    and "ds_num_samples ds = length (lookup_entries sites_id (da_time y) rho w)"
    and "loader_type \<in> {''train'', ''valid'', ''test''}"
  using assms
  by (auto simp: BaseDataset_init_def create_lookup_table_fields split: if_splits)

lemma BaseDataset_init_returns:
  "loader_type \<in> {''train'', ''valid'', ''test''}
     \<Longrightarrow> \<exists>ds. BaseDataset_init sites_id x y c rho w loader_type = Inr ds"
  by (simp add: BaseDataset_init_def)

lemma BaseDataset_init_entry:
  assumes "BaseDataset_init sites_id x y c rho w loader_type = Inr ds"
    and "k < ds_num_samples ds"
  shows "map_of (ds_lookup_table ds) k
     = Some (sites_id ! (k div length (spec_window_starts (length (da_time y)) rho w)),
             da_time y ! (w + k mod length (spec_window_starts (length (da_time y)) rho w)))"
proof -
  from assms have "k < length sites_id
      * length (spec_window_starts (length (da_time y)) rho w)"
    by (simp only: BaseDataset_init_fields length_lookup_entries)
  from nth_lookup_entries [OF this] assms show ?thesis
    by (simp add: BaseDataset_init_fields map_of_enumerate)
qed

lemma BaseDataset_init_entry_in_range:
  assumes "BaseDataset_init sites_id x y c rho w loader_type = Inr ds"
    and "(k, basin, t) \<in> set (ds_lookup_table ds)"
  shows "basin \<in> set sites_id"
    and "\<exists>f. f < length (da_time y) \<and> t = da_time y ! f \<and> w \<le> f
             \<and> int f \<le> int (length (da_time y)) - int rho"
proof -
  from assms have "(k, basin, t) \<in> set (enumerate 0 (lookup_entries sites_id (da_time y) rho w))"
    by (simp only: BaseDataset_init_fields)
  then have "(basin, t) \<in> set (lookup_entries sites_id (da_time y) rho w)"
    by (auto simp: enumerate_eq_zip dest: set_zip_rightD)
  then have "basin \<in> set sites_id
      \<and> (\<exists>f \<in> set (spec_window_starts (length (da_time y)) rho w). t = da_time y ! f)"
    unfolding lookup_entries_concat by auto
  then show "basin \<in> set sites_id"
    and "\<exists>f. f < length (da_time y) \<and> t = da_time y ! f \<and> w \<le> f
             \<and> int f \<le> int (length (da_time y)) - int rho"
    by (auto simp: set_spec_window_starts)
qed

lemma daily_axis_nth:
  assumes "daily_axis ts" and "f < length ts"
  shows "ts ! f = hd ts + int f"
proof -
  from assms(1) have "ts ! f = map (\<lambda>i. hd ts + int i) [0..<length ts] ! f"
    unfolding daily_axis_def by simp
  with assms(2) show ?thesis by simp
qed

lemma daily_axis_last:
  assumes "daily_axis ts" and "ts \<noteq> []"
  shows "last ts = hd ts + int (length ts) - 1"
proof -
  from assms(2) have "last ts = ts ! (length ts - 1)" by (rule last_conv_nth)
  also have "\<dots> = hd ts + int (length ts - 1)"
    using assms by (intro daily_axis_nth) simp_all
  finally show ?thesis using assms(2) by (simp add: of_nat_diff Suc_leI)
qed

lemma example_daily: "daily_axis example_dates"
  by (simp add: daily_axis_def example_dates_def upt_conv_Cons)

subsection \<open>Size\<close>

text \<open>
  C2. For a window length \<open>rho\<close> (at least one timestep), \<open>ngrid\<close> units over \<open>nt\<close>
  timestamps with warmup \<open>w\<close> give a lookup table of exactly
  \<open>ngrid * (nt - rho - w + 1)\<close> entries when \<open>nt - rho - w + 1 > 0\<close>; when
  \<open>rho > nt - w\<close> every unit contributes no entry and the construction still returns a
  dataset (with an empty table).
\<close>

theorem lookup_table_size:
  assumes "BaseDataset_init sites_id x y c rho w loader_type = Inr ds"
    and "ngrid = length sites_id" and "nt = length (da_time y)"
    and "1 \<le> rho"
  shows "(0 < int nt - int rho - int w + 1
            \<longrightarrow> int (ds_num_samples ds) = int ngrid * (int nt - int rho - int w + 1)
                \<and> length (ds_lookup_table ds) = ds_num_samples ds)
       \<and> (int rho > int nt - int w
            \<longrightarrow> ds_lookup_table ds = [] \<and> ds_num_samples ds = 0
                \<and> (\<forall>u. lookup_entries [u] (da_time y) rho w = []))"
proof (intro conjI impI)
  note f = BaseDataset_init_fields [OF assms(1)]
  {
    assume a: "0 < int nt - int rho - int w + 1"
    with assms(4)
    have "min nt (nat (int nt - int rho + 1)) - w = nat (int nt - int rho - int w + 1)"
      by linarith
    then have "int (length (spec_window_starts nt rho w)) = int nt - int rho - int w + 1"
      using a by (simp add: length_spec_window_starts)
    then show "int (ds_num_samples ds) = int ngrid * (int nt - int rho - int w + 1)"
      by (simp add: f length_lookup_entries assms(2,3))
    show "length (ds_lookup_table ds) = ds_num_samples ds"
      by (simp add: f)
  }
  {
    assume a: "int rho > int nt - int w"
    then have "min nt (nat (int nt - int rho + 1)) - w = 0" by linarith
    then have z: "spec_window_starts nt rho w = []"
      by (simp only: flip: length_spec_window_starts length_0_conv)
    then have e: "lookup_entries sites_id (da_time y) rho w = []"
      by (simp add: lookup_entries_concat assms(3))
    then show "ds_lookup_table ds = []" and "ds_num_samples ds = 0"
      by (simp_all add: f enumerate_eq_zip)
    show "\<forall>u. lookup_entries [u] (da_time y) rho w = []"
      using z by (simp add: lookup_entries_concat assms(3))
  }
qed

lemma example_init_3_2:
  "map_sum id ds_num_samples
     (BaseDataset_init example_sites example_x example_y None 3 2 ''train'') = Inr 18"
  by code_simp

theorem lookup_table_size_witness:
  "\<exists>ds. BaseDataset_init example_sites example_x example_y None 3 2 ''train'' = Inr ds
        \<and> (3::nat) = length example_sites \<and> (10::nat) = length (da_time example_y)
        \<and> (1::nat) \<le> 3 \<and> (0::int) < int 10 - int 3 - int 2 + 1
        \<and> int (ds_num_samples ds) = int 3 * (int 10 - int 3 - int 2 + 1)
        \<and> ds_num_samples ds = 18
        \<and> (\<exists>ds'. BaseDataset_init example_sites example_x example_y None 9 2 ''train''
                    = Inr ds'
                 \<and> int 9 > int 10 - int 2
                 \<and> ds_lookup_table ds' = [] \<and> ds_num_samples ds' = 0)"
proof -
  obtain ds where ds: "BaseDataset_init example_sites example_x example_y None 3 2 ''train''
      = Inr ds"
    by (auto simp: BaseDataset_init_def)
  obtain ds' where ds': "BaseDataset_init example_sites example_x example_y None 9 2 ''train''
      = Inr ds'"
    by (auto simp: BaseDataset_init_def)
  have n: "(3::nat) = length example_sites" "(10::nat) = length (da_time example_y)"
    by (simp_all add: example_sites_def example_y_def example_dates_def)
  have r3: "(1::nat) \<le> 3" and r9: "(1::nat) \<le> 9" by simp_all
  from lookup_table_size [OF ds n r3]
  have a: "int (ds_num_samples ds) = int 3 * (int 10 - int 3 - int 2 + 1)"
    by simp
  then have b: "ds_num_samples ds = 18" by simp
  have gt: "int 9 > int 10 - int 2" by simp
  from lookup_table_size [OF ds' n r9]
  have "int 9 > int 10 - int 2 \<longrightarrow> ds_lookup_table ds' = [] \<and> ds_num_samples ds' = 0"
    by blast
  with gt have c: "ds_lookup_table ds' = [] \<and> ds_num_samples ds' = 0" by blast
  from ds ds' n a b c gt show ?thesis by auto
qed

subsection \<open>Order\<close>

text \<open>
  C3. The lookup table is the specification's enumeration: units in their given order,
  within a unit the window starts (the timestamp indices in
  \<open>[warmup_length, time_length - rho]\<close>) ascending, and the ids are \<open>0..N-1\<close> in exactly
  that order. So id \<open>k\<close> is the window number \<open>k mod m\<close> of unit number \<open>k div m\<close>, for \<open>m\<close>
  windows per unit, and id \<open>0\<close> is the first unit's earliest window. The table is a function
  of the unit list, the time axis, \<open>rho\<close> and \<open>warmup_length\<close> alone.
\<close>

theorem lookup_table_order:
  assumes "BaseDataset_init sites_id x y c rho w loader_type = Inr ds"
    and "m = length (spec_window_starts (length (da_time y)) rho w)"
  shows "ds_lookup_table ds = spec_lookup_table sites_id (da_time y) rho w
       \<and> map fst (ds_lookup_table ds) = [0..<ds_num_samples ds]
       \<and> ds_num_samples ds = length sites_id * m
       \<and> (\<forall>k. k < ds_num_samples ds
              \<longrightarrow> map_of (ds_lookup_table ds) k
                    = Some (sites_id ! (k div m), da_time y ! (w + k mod m)))
       \<and> (0 < ds_num_samples ds
              \<longrightarrow> map_of (ds_lookup_table ds) 0 = Some (hd sites_id, da_time y ! w))"
proof (intro conjI allI impI)
  note f = BaseDataset_init_fields [OF assms(1)]
  show "ds_lookup_table ds = spec_lookup_table sites_id (da_time y) rho w"
    by (simp add: f spec_lookup_table_def Let_def enumerate_eq_zip lookup_entries_concat)
  show "map fst (ds_lookup_table ds) = [0..<ds_num_samples ds]"
    by (simp add: f map_fst_enumerate)
  show n: "ds_num_samples ds = length sites_id * m"
    by (simp add: f length_lookup_entries assms(2))
  show "map_of (ds_lookup_table ds) k = Some (sites_id ! (k div m), da_time y ! (w + k mod m))"
    if "k < ds_num_samples ds" for k
    using BaseDataset_init_entry [OF assms(1) that] by (simp add: assms(2))
  show "map_of (ds_lookup_table ds) 0 = Some (hd sites_id, da_time y ! w)"
    if "0 < ds_num_samples ds"
  proof -
    from that n have "sites_id \<noteq> []" by auto
    then have "sites_id ! 0 = hd sites_id" by (simp add: hd_conv_nth)
    with BaseDataset_init_entry [OF assms(1) that] show ?thesis by simp
  qed
qed

theorem lookup_table_order_witness:
  "\<exists>ds. BaseDataset_init example_sites example_x example_y None 3 2 ''train'' = Inr ds
        \<and> (6::nat) = length (spec_window_starts (length (da_time example_y)) 3 2)
        \<and> ds_lookup_table ds = spec_lookup_table example_sites (da_time example_y) 3 2
        \<and> (7::nat) < ds_num_samples ds
        \<and> map_of (ds_lookup_table ds) 7 = Some (''b2'', 3)
        \<and> map_of (ds_lookup_table ds) 0 = Some (''b1'', 2)"
proof -
  obtain ds where ds: "BaseDataset_init example_sites example_x example_y None 3 2 ''train''
      = Inr ds"
    by (auto simp: BaseDataset_init_def)
  have m: "(6::nat) = length (spec_window_starts (length (da_time example_y)) 3 2)"
    by code_simp
  have n: "ds_num_samples ds = 18"
    using example_init_3_2 ds by simp
  have v: "example_sites ! (7 div 6) = ''b2''" "da_time example_y ! (2 + 7 mod 6) = 3"
      "hd example_sites = ''b1''" "da_time example_y ! 2 = 2"
    by (simp_all add: example_sites_def example_y_def example_dates_def)
  from lookup_table_order [OF ds m]
  have t: "ds_lookup_table ds = spec_lookup_table example_sites (da_time example_y) 3 2"
    and a: "\<forall>k. k < ds_num_samples ds
              \<longrightarrow> map_of (ds_lookup_table ds) k
                    = Some (example_sites ! (k div 6), da_time example_y ! (2 + k mod 6))"
    and z: "0 < ds_num_samples ds
              \<longrightarrow> map_of (ds_lookup_table ds) 0 = Some (hd example_sites, da_time example_y ! 2)"
    by blast+
  from n have lt: "7 < ds_num_samples ds" "0 < ds_num_samples ds" by simp_all
  from a lt(1) have e7: "map_of (ds_lookup_table ds) 7
      = Some (example_sites ! (7 div 6), da_time example_y ! (2 + 7 mod 6))"
    by blast
  from z lt(2) have e0: "map_of (ds_lookup_table ds) 0
      = Some (hd example_sites, da_time example_y ! 2)"
    by blast
  show ?thesis
    apply (rule exI [of _ ds])
    apply (simp only: e7 e0 v)
    apply (intro conjI)
    apply (rule ds)
    apply (rule m)
    apply (rule t)
    apply (rule lt(1))
    apply (rule refl)
    apply (rule refl)
    done
qed

subsection \<open>Windows lie within the time axis\<close>

text \<open>
  C4. Every entry \<open>(unit, start)\<close> of a constructed lookup table names a unit of the
  dataset and the timestamp at an index \<open>f\<close> of the time axis with
  \<open>warmup_length \<le> f \<le> time_length - rho\<close>, so that the positions
  \<open>f - warmup_length, ..., f + rho - 1\<close> all lie on the axis; on an axis of consecutive days
  the labels \<open>start - warmup_length\<close> and \<open>start + rho - 1\<close> lie between the first and the
  last timestamp.
\<close>

theorem lookup_table_windows_in_range:
  assumes "BaseDataset_init sites_id x y c rho w loader_type = Inr ds"
  shows "(\<forall>(k, basin, t) \<in> set (ds_lookup_table ds).
            basin \<in> set sites_id
            \<and> (\<exists>f. f < length (da_time y) \<and> t = da_time y ! f
                   \<and> int w \<le> int f \<and> int f \<le> int (length (da_time y)) - int rho
                   \<and> 0 \<le> int f - int w \<and> int f + int rho - 1 \<le> int (length (da_time y)) - 1))
       \<and> (daily_axis (da_time y)
            \<longrightarrow> (\<forall>(k, basin, t) \<in> set (ds_lookup_table ds).
                    hd (da_time y) \<le> t - int w \<and> t + int rho - 1 \<le> last (da_time y)))"
proof (intro conjI impI ballI)
  fix e assume e: "e \<in> set (ds_lookup_table ds)"
  obtain k basin t where [simp]: "e = (k, basin, t)" by (cases e) auto
  from e BaseDataset_init_entry_in_range [OF assms, of k basin t]
  show "case e of (k, basin, t) \<Rightarrow>
            basin \<in> set sites_id
            \<and> (\<exists>f. f < length (da_time y) \<and> t = da_time y ! f
                   \<and> int w \<le> int f \<and> int f \<le> int (length (da_time y)) - int rho
                   \<and> 0 \<le> int f - int w \<and> int f + int rho - 1 \<le> int (length (da_time y)) - 1)"
    by auto
next
  fix e assume d: "daily_axis (da_time y)" and e: "e \<in> set (ds_lookup_table ds)"
  obtain k basin t where [simp]: "e = (k, basin, t)" by (cases e) auto
  from e BaseDataset_init_entry_in_range(2) [OF assms, of k basin t]
  obtain f where f: "f < length (da_time y)" "t = da_time y ! f" "w \<le> f"
      "int f \<le> int (length (da_time y)) - int rho"
    by auto
  from f(1) have ne: "da_time y \<noteq> []" by auto
  have t: "t = hd (da_time y) + int f" using daily_axis_nth [OF d f(1)] f(2) by simp
  have l: "last (da_time y) = hd (da_time y) + int (length (da_time y)) - 1"
    by (rule daily_axis_last [OF d ne])
  show "case e of (k, basin, t) \<Rightarrow>
          hd (da_time y) \<le> t - int w \<and> t + int rho - 1 \<le> last (da_time y)"
    using t l f(3,4) by simp
qed

theorem lookup_table_windows_in_range_witness:
  "\<exists>ds. BaseDataset_init example_sites example_x example_y None 3 2 ''train'' = Inr ds
        \<and> (7, ''b2'', 3) \<in> set (ds_lookup_table ds)
        \<and> daily_axis (da_time example_y)
        \<and> hd (da_time example_y) \<le> 3 - int 2 \<and> 3 + int 3 - 1 \<le> last (da_time example_y)
        \<and> (\<exists>f. f < length (da_time example_y) \<and> (3::int) = da_time example_y ! f
               \<and> int 2 \<le> int f \<and> int f \<le> int (length (da_time example_y)) - int 3)"
proof -
  obtain ds where ds: "BaseDataset_init example_sites example_x example_y None 3 2 ''train''
      = Inr ds"
    by (auto simp: BaseDataset_init_def)
  have "map_sum id ds_lookup_table
      (BaseDataset_init example_sites example_x example_y None 3 2 ''train'')
      = Inr (spec_lookup_table example_sites example_dates 3 2)"
    by code_simp
  with ds have "ds_lookup_table ds = spec_lookup_table example_sites example_dates 3 2"
    by simp
  moreover have "(7, ''b2'', 3) \<in> set (spec_lookup_table example_sites example_dates 3 2)"
    by code_simp
  ultimately have mem: "(7, ''b2'', 3) \<in> set (ds_lookup_table ds)" by simp
  have d: "daily_axis (da_time example_y)"
    using example_daily by (simp add: example_y_def)
  from lookup_table_windows_in_range [OF ds] mem d ds show ?thesis by fastforce
qed

section \<open>Properties of indexed access\<close>

lemma daily_axis_upto:
  assumes "daily_axis ts" and "ts \<noteq> []"
  shows "ts = [hd ts..hd ts + int (length ts) - 1]"
proof -
  have "map (\<lambda>i. d + int i) [0..<n] = [d..d + int n - 1]" for d :: int and n
  proof (induction n)
    case 0
    then show ?case by simp
  next
    case (Suc n)
    have "[d..d + int (Suc n) - 1] = [d..d + int n - 1] @ [d + int n]"
      using upto_rec2 [of d "d + int n"] by simp
    with Suc show ?case by simp
  qed
  from this [of "hd ts" "length ts"] assms(1) show ?thesis
    unfolding daily_axis_def by simp
qed

lemma filter_upto_window:
  assumes "a \<le> lo" and "hi \<le> b"
  shows "filter (\<lambda>t. lo \<le> t \<and> t \<le> hi) [a..b] = [lo..hi]"
proof (rule sorted_distinct_set_unique)
  show "sorted (filter (\<lambda>t. lo \<le> t \<and> t \<le> hi) [a..b])"
    by (rule sorted_wrt_filter) simp
  show "distinct (filter (\<lambda>t. lo \<le> t \<and> t \<le> hi) [a..b])" by simp
  show "sorted [lo..hi]" by simp
  show "distinct [lo..hi]" by simp
  show "set (filter (\<lambda>t. lo \<le> t \<and> t \<le> hi) [a..b]) = set [lo..hi]"
    using assms by auto
qed

lemma map2_append_replicate:
  "length a = n \<Longrightarrow> map2 (@) a (replicate n c) = map (\<lambda>r. r @ c) a"
  by (induction a arbitrary: n) auto

lemma concatenate_axis1_replicate:
  "concatenate_axis1 a (replicate n c) = Inr xc \<Longrightarrow> xc = map (\<lambda>r. r @ c) a"
  "length a = n \<Longrightarrow> concatenate_axis1 a (replicate n c) = Inr (map (\<lambda>r. r @ c) a)"
  by (auto simp: concatenate_axis1_def map2_append_replicate split: if_splits)

lemma getitem_train_Inr:
  assumes "map_of (ds_lookup_table ds) item = Some (basin, t)"
    and "getitem_train cast ds item = Inr r"
  shows "r = (spec_input_window cast ds basin t, spec_target_window cast ds basin t)"
proof -
  let ?w = "ds_warmup_length ds" and ?rho = "ds_rho ds"
  from assms obtain xs xc ys
    where xs: "sel_basin_time (ds_x ds) basin (t - int ?w) (t + (int ?rho - 1)) = Inr xs"
      and xc: "(case ds_c ds of
                  None \<Rightarrow> Inr xs
                | Some ca \<Rightarrow>
                    if 0 < length (attr_basin ca)
                    then (case sel_basin_attr ca basin of
                            Inl e \<Rightarrow> Inl e
                          | Inr c \<Rightarrow> concatenate_axis1 xs (replicate (?w + ?rho) c))
                    else Inr xs) = Inr xc"
      and ys: "sel_basin_time (ds_y ds) basin t (t + (int ?rho - 1)) = Inr ys"
      and r: "r = (from_numpy_float cast xc, from_numpy_float cast ys)"
    unfolding getitem_train_def Let_def by (auto split: sum.splits)
  have "xc = map (\<lambda>row. row @ attr_columns ds basin) xs"
  proof (cases "ds_c ds")
    case None
    with xc show ?thesis by (simp add: attr_columns_def)
  next
    case (Some ca)
    show ?thesis
    proof (cases "0 < length (attr_basin ca)")
      case False
      with xc Some show ?thesis by (simp add: attr_columns_def)
    next
      case True
      with xc Some obtain c where c: "sel_basin_attr ca basin = Inr c"
        and cc: "concatenate_axis1 xs (replicate (?w + ?rho) c) = Inr xc"
        by (auto split: sum.splits)
      from c have "attr_columns ds basin = c"
        using Some True by (auto simp: attr_columns_def sel_basin_attr_def split: if_splits)
      with concatenate_axis1_replicate(1) [OF cc] show ?thesis by simp
    qed
  qed
  moreover from xs have "xs = map (\<lambda>t'. map (\<lambda>v. da_values (ds_x ds) v basin t') (da_variable (ds_x ds)))
      (filter (\<lambda>t'. t - int ?w \<le> t' \<and> t' \<le> t + int ?rho - 1) (da_time (ds_x ds)))"
    by (auto simp: sel_basin_time_def algebra_simps split: if_splits)
  moreover from ys have "ys = map (\<lambda>t'. map (\<lambda>v. da_values (ds_y ds) v basin t') (da_variable (ds_y ds)))
      (filter (\<lambda>t'. t \<le> t' \<and> t' \<le> t + int ?rho - 1) (da_time (ds_y ds)))"
    by (auto simp: sel_basin_time_def algebra_simps split: if_splits)
  ultimately show ?thesis
    unfolding r spec_input_window_def spec_target_window_def from_numpy_float_def
    by (simp add: comp_def)
qed

lemma arrays_aligned_basin:
  assumes "arrays_aligned sites_id x y c" and "basin \<in> set sites_id"
  shows "basin \<in> set (da_basin x)" and "basin \<in> set (da_basin y)"
    and "c = Some ca \<Longrightarrow> basin \<in> set (attr_basin ca)"
  using assms by (auto simp: arrays_aligned_def list_all_iff)

lemma getitem_train_returns:
  assumes init: "BaseDataset_init sites_id x y c rho w loader_type = Inr ds"
    and al: "arrays_aligned sites_id x y c"
    and k: "item < ds_num_samples ds"
  shows "\<exists>basin t. map_of (ds_lookup_table ds) item = Some (basin, t)
           \<and> getitem_train cast ds item
               = Inr (spec_input_window cast ds basin t, spec_target_window cast ds basin t)
           \<and> filter (\<lambda>t'. t - int w \<le> t' \<and> t' \<le> t + int rho - 1) (da_time x)
               = [t - int w..t + int rho - 1]
           \<and> filter (\<lambda>t'. t \<le> t' \<and> t' \<le> t + int rho - 1) (da_time y)
               = [t..t + int rho - 1]
           \<and> length (spec_input_window cast ds basin t) = w + rho
           \<and> length (spec_target_window cast ds basin t) = rho"
proof -
  note f = BaseDataset_init_fields [OF init]
  from BaseDataset_init_entry [OF init k]
  obtain basin t where e: "map_of (ds_lookup_table ds) item = Some (basin, t)" by blast
  then have mem: "(item, basin, t) \<in> set (ds_lookup_table ds)" by (rule map_of_SomeD)
  from BaseDataset_init_entry_in_range [OF init mem]
  obtain i where b: "basin \<in> set sites_id" and i: "i < length (da_time y)"
      "t = da_time y ! i" "w \<le> i" "int i \<le> int (length (da_time y)) - int rho"
    by blast
  from al have d: "daily_axis (da_time y)" and same: "da_time x = da_time y"
    by (simp_all add: arrays_aligned_def)
  from i(1) have ne: "da_time y \<noteq> []" by auto
  define d0 where "d0 = hd (da_time y)"
  have axis: "da_time y = [d0..d0 + int (length (da_time y)) - 1]"
    unfolding d0_def by (rule daily_axis_upto [OF d ne])
  have t: "t = d0 + int i" unfolding d0_def using daily_axis_nth [OF d i(1)] i(2) by simp
  have lo: "d0 \<le> t - int w" using t i(3) by simp
  have hi: "t + int rho - 1 \<le> d0 + int (length (da_time y)) - 1" using t i(4) by simp
  have fx: "filter (\<lambda>t'. t - int w \<le> t' \<and> t' \<le> t + int rho - 1) (da_time y)
      = [t - int w..t + int rho - 1]"
    by (subst axis) (rule filter_upto_window [OF lo hi])
  have fy: "filter (\<lambda>t'. t \<le> t' \<and> t' \<le> t + int rho - 1) (da_time y) = [t..t + int rho - 1]"
    using lo hi by (subst axis) (intro filter_upto_window, simp_all)
  have bx: "basin \<in> set (da_basin x)" and "basin \<in> set (da_basin y)"
    using arrays_aligned_basin [OF al b] by simp_all
  have li: "length (spec_input_window cast ds basin t) = w + rho"
    unfolding spec_input_window_def f(2,5,6) same fx by simp
  have lt: "length (spec_target_window cast ds basin t) = rho"
    unfolding spec_target_window_def f(3,5) fy by simp
  have sx: "sel_basin_time x basin (t - int w) (t + (int rho - 1))
      = Inr (map (\<lambda>t'. map (\<lambda>v. da_values x v basin t') (da_variable x))
               [t - int w..t + int rho - 1])"
    using bx fx by (simp add: sel_basin_time_def same algebra_simps)
  have sy: "\<exists>ys. sel_basin_time y basin t (t + (int rho - 1)) = Inr ys"
    using \<open>basin \<in> set (da_basin y)\<close> by (simp add: sel_basin_time_def)
  have lx: "length (map (\<lambda>t'. map (\<lambda>v. da_values x v basin t') (da_variable x))
               [t - int w..t + int rho - 1]) = w + rho"
    by simp
  have "\<exists>r. getitem_train cast ds item = Inr r"
  proof (cases c)
    case None
    with e sx sy show ?thesis by (auto simp: getitem_train_def f Let_def)
  next
    case (Some ca)
    from arrays_aligned_basin(3) [OF al b Some]
    have sc: "sel_basin_attr ca basin
        = Inr (map (\<lambda>v. attr_values ca v basin) (attr_variable ca))"
      by (simp add: sel_basin_attr_def)
    show ?thesis
      using e sx sy Some sc concatenate_axis1_replicate(2) [OF lx]
      by (auto simp: getitem_train_def f Let_def)
  qed
  then obtain r where r: "getitem_train cast ds item = Inr r" by blast
  from getitem_train_Inr [OF e r] r
  have "getitem_train cast ds item
      = Inr (spec_input_window cast ds basin t, spec_target_window cast ds basin t)"
    by simp
  with e fx fy li lt same show ?thesis by auto
qed

lemma getitem_inference_Inr:
  assumes "getitem_inference cast ds item = Inr (xc, ys)"
  shows "length ys = length (da_time (ds_y ds))"
  using assms unfolding getitem_inference_def Let_def
  by (auto simp: sel_basin_def from_numpy_float_def split: if_splits sum.splits option.splits)

subsection \<open>Training windows\<close>

text \<open>
  C7. In train mode, whenever indexed access at id \<open>item\<close> with lookup entry
  \<open>(basin, time)\<close> returns, the input is the normalised forcing sliced over
  \<open>[time - warmup_length, time + rho - 1]\<close>, each row followed by the static attributes of
  the basin (when the dataset has attributes), and the target is the normalised target
  sliced over \<open>[time, time + rho - 1]\<close>. For arrays read for the dataset's sites over a
  common axis of consecutive days, access returns at every id below the table size, the
  input has \<open>warmup_length + rho\<close> rows (the days \<open>time - warmup_length, ..., time + rho - 1\<close>)
  and the target has \<open>rho\<close> rows (the days \<open>time, ..., time + rho - 1\<close>): the warmup days
  are not part of the target.
\<close>

theorem getitem_train_windows:
  assumes "BaseDataset_init sites_id x y c rho w ''train'' = Inr ds"
  shows "(\<forall>item basin t r.
            map_of (ds_lookup_table ds) item = Some (basin, t)
            \<and> BaseDataset_getitem cast ds item = Inr r
            \<longrightarrow> r = (spec_input_window cast ds basin t, spec_target_window cast ds basin t))
       \<and> (arrays_aligned sites_id x y c
            \<longrightarrow> (\<forall>item. item < ds_num_samples ds
                   \<longrightarrow> (\<exists>basin t.
                          map_of (ds_lookup_table ds) item = Some (basin, t)
                          \<and> BaseDataset_getitem cast ds item
                              = Inr (spec_input_window cast ds basin t,
                                     spec_target_window cast ds basin t)
                          \<and> filter (\<lambda>t'. t - int w \<le> t' \<and> t' \<le> t + int rho - 1) (da_time x)
                              = [t - int w..t + int rho - 1]
                          \<and> filter (\<lambda>t'. t \<le> t' \<and> t' \<le> t + int rho - 1) (da_time y)
                              = [t..t + int rho - 1]
                          \<and> length (spec_input_window cast ds basin t) = w + rho
                          \<and> length (spec_target_window cast ds basin t) = rho)))"
proof -
  have tm: "ds_train_mode ds" using BaseDataset_init_fields(7) [OF assms] by simp
  then have g: "BaseDataset_getitem cast ds item = getitem_train cast ds item" for item
    by (simp add: BaseDataset_getitem_def)
  show ?thesis
  proof (intro conjI allI impI)
    fix item basin t r
    assume "map_of (ds_lookup_table ds) item = Some (basin, t)
        \<and> BaseDataset_getitem cast ds item = Inr r"
    then have e: "map_of (ds_lookup_table ds) item = Some (basin, t)"
      and r: "getitem_train cast ds item = Inr r"
      by (simp_all add: g)
    show "r = (spec_input_window cast ds basin t, spec_target_window cast ds basin t)"
      by (rule getitem_train_Inr [OF e r])
  next
    fix item
    assume "arrays_aligned sites_id x y c" and "item < ds_num_samples ds"
    from getitem_train_returns [OF assms this, of cast]
    show "\<exists>basin t.
            map_of (ds_lookup_table ds) item = Some (basin, t)
            \<and> BaseDataset_getitem cast ds item
                = Inr (spec_input_window cast ds basin t, spec_target_window cast ds basin t)
            \<and> filter (\<lambda>t'. t - int w \<le> t' \<and> t' \<le> t + int rho - 1) (da_time x)
                = [t - int w..t + int rho - 1]
            \<and> filter (\<lambda>t'. t \<le> t' \<and> t' \<le> t + int rho - 1) (da_time y)
                = [t..t + int rho - 1]
            \<and> length (spec_input_window cast ds basin t) = w + rho
            \<and> length (spec_target_window cast ds basin t) = rho"
      unfolding g .
  qed
qed

lemma example_aligned: "arrays_aligned example_sites example_x example_y (Some example_c)"
  by code_simp

theorem getitem_train_windows_witness:
  "\<exists>ds. BaseDataset_init example_sites example_x example_y (Some example_c) 3 2 ''train''
          = Inr ds
        \<and> arrays_aligned example_sites example_x example_y (Some example_c)
        \<and> (7::nat) < ds_num_samples ds
        \<and> map_of (ds_lookup_table ds) 7 = Some (''b2'', 3)
        \<and> BaseDataset_getitem id ds 7
            = Inr ([[1, 7, 8], [2, 7, 8], [3, 7, 8], [4, 7, 8], [5, 7, 8]],
                   [[103], [104], [105]])"
proof -
  obtain ds where ds: "BaseDataset_init example_sites example_x example_y (Some example_c) 3 2
      ''train'' = Inr ds"
    by (auto simp: BaseDataset_init_def)
  have "map_sum id (\<lambda>ds. (ds_num_samples ds, map_of (ds_lookup_table ds) 7,
            spec_input_window id ds ''b2'' 3, spec_target_window id ds ''b2'' 3))
          (BaseDataset_init example_sites example_x example_y (Some example_c) 3 2 ''train'')
      = Inr (18, Some (''b2'', 3),
             [[1, 7, 8], [2, 7, 8], [3, 7, 8], [4, 7, 8], [5, 7, 8]],
             [[103], [104], [105]])"
    by code_simp
  with ds have n: "ds_num_samples ds = 18"
    and e: "map_of (ds_lookup_table ds) 7 = Some (''b2'', 3)"
    and wi: "spec_input_window id ds ''b2'' 3
        = [[1, 7, 8], [2, 7, 8], [3, 7, 8], [4, 7, 8], [5, 7, 8]]"
    and wt: "spec_target_window id ds ''b2'' 3 = [[103], [104], [105]]"
    by simp_all
  from n have lt: "7 < ds_num_samples ds" by simp
  from getitem_train_windows [OF ds, where cast = id]
  have "arrays_aligned example_sites example_x example_y (Some example_c)
      \<longrightarrow> (\<forall>item. item < ds_num_samples ds
             \<longrightarrow> (\<exists>basin t.
                    map_of (ds_lookup_table ds) item = Some (basin, t)
                    \<and> BaseDataset_getitem id ds item
                        = Inr (spec_input_window id ds basin t,
                               spec_target_window id ds basin t)))"
    by blast
  with example_aligned lt
  obtain basin t where "map_of (ds_lookup_table ds) 7 = Some (basin, t)"
    and "BaseDataset_getitem id ds 7
        = Inr (spec_input_window id ds basin t, spec_target_window id ds basin t)"
    by blast
  with e wi wt have "BaseDataset_getitem id ds 7
      = Inr ([[1, 7, 8], [2, 7, 8], [3, 7, 8], [4, 7, 8], [5, 7, 8]], [[103], [104], [105]])"
    by simp
  with ds example_aligned lt e show ?thesis by blast
qed

subsection \<open>The single-flow variant\<close>

text \<open>
  Whenever the base dataset returns \<open>(xc, ys)\<close> with a target that has a row, the
  single-flow variant returns the same input \<open>xc\<close> and the last row of \<open>ys\<close>. In train mode
  (aligned arrays, \<open>rho \<ge> 1\<close>) this holds at every id below the table size, and the last
  row is row \<open>rho - 1\<close> of the target window. In inference mode the base target is the whole
  series of a unit, so the last row is the last timestep of the series. The variant's
  length is the number of lookup-table samples in every mode.
\<close>

lemma BasinSingleFlowDataset_getitem_last:
  assumes "BaseDataset_init sites_id x y c rho w loader_type = Inr ds"
  shows "(\<forall>index xc ys.
            BaseDataset_getitem cast ds index = Inr (xc, ys) \<and> ys \<noteq> []
            \<longrightarrow> BasinSingleFlowDataset_getitem cast ds index = Inr (xc, last ys))
       \<and> (loader_type = ''train'' \<and> arrays_aligned sites_id x y c \<and> 1 \<le> rho
            \<longrightarrow> (\<forall>index. index < ds_num_samples ds
                   \<longrightarrow> (\<exists>xc ys.
                          BaseDataset_getitem cast ds index = Inr (xc, ys)
                          \<and> length ys = rho
                          \<and> BasinSingleFlowDataset_getitem cast ds index
                              = Inr (xc, ys ! (rho - 1)))))
       \<and> (loader_type \<noteq> ''train''
            \<longrightarrow> (\<forall>index xc ys.
                   BaseDataset_getitem cast ds index = Inr (xc, ys) \<and> ys \<noteq> []
                   \<longrightarrow> length ys = length (da_time y)
                       \<and> BasinSingleFlowDataset_getitem cast ds index
                           = Inr (xc, ys ! (length (da_time y) - 1))))
       \<and> BasinSingleFlowDataset_len ds = ds_num_samples ds
       \<and> ds_num_samples ds = length (ds_lookup_table ds)"
proof (intro conjI allI impI)
  note f = BaseDataset_init_fields [OF assms]
  show a: "BasinSingleFlowDataset_getitem cast ds index = Inr (xc, last ys)"
    if "BaseDataset_getitem cast ds index = Inr (xc, ys) \<and> ys \<noteq> []" for index xc ys
    using that by (simp add: BasinSingleFlowDataset_getitem_def)
  show "\<exists>xc ys. BaseDataset_getitem cast ds index = Inr (xc, ys) \<and> length ys = rho
          \<and> BasinSingleFlowDataset_getitem cast ds index = Inr (xc, ys ! (rho - 1))"
    if h: "loader_type = ''train'' \<and> arrays_aligned sites_id x y c \<and> 1 \<le> rho"
      and k: "index < ds_num_samples ds" for index
  proof -
    from h have al: "arrays_aligned sites_id x y c" and rho: "1 \<le> rho" by simp_all
    from h f(7) have g: "BaseDataset_getitem cast ds index = getitem_train cast ds index"
      by (simp add: BaseDataset_getitem_def)
    from getitem_train_returns [OF assms al k, of cast]
    obtain basin t where r: "getitem_train cast ds index
          = Inr (spec_input_window cast ds basin t, spec_target_window cast ds basin t)"
      and l: "length (spec_target_window cast ds basin t) = rho"
      by blast
    from l rho have ne: "spec_target_window cast ds basin t \<noteq> []" by auto
    then have "last (spec_target_window cast ds basin t)
        = spec_target_window cast ds basin t ! (rho - 1)"
      using l by (simp add: last_conv_nth)
    with a [of index "spec_input_window cast ds basin t" "spec_target_window cast ds basin t"]
      g r l ne
    show ?thesis by simp
  qed
  show "length ys = length (da_time y)"
    and "BasinSingleFlowDataset_getitem cast ds index
           = Inr (xc, ys ! (length (da_time y) - 1))"
    if h: "loader_type \<noteq> ''train''"
      and r: "BaseDataset_getitem cast ds index = Inr (xc, ys) \<and> ys \<noteq> []" for index xc ys
  proof -
    from h f(7) r have "getitem_inference cast ds index = Inr (xc, ys)"
      by (simp add: BaseDataset_getitem_def)
    from getitem_inference_Inr [OF this] show l: "length ys = length (da_time y)"
      by (simp add: f)
    from r have "last ys = ys ! (length ys - 1)" by (simp add: last_conv_nth)
    with a [OF r] l
    show "BasinSingleFlowDataset_getitem cast ds index
           = Inr (xc, ys ! (length (da_time y) - 1))"
      by simp
  qed
  show "BasinSingleFlowDataset_len ds = ds_num_samples ds"
    by (simp add: BasinSingleFlowDataset_len_def)
  show "ds_num_samples ds = length (ds_lookup_table ds)"
    by (simp add: f)
qed

text \<open>
  C10. In inference mode the variant's length and its indexing disagree. For the test-mode
  dataset over three basins and ten days with \<open>rho = 3\<close> and a warmup of \<open>2\<close>, the variant's
  \<^verbatim>\<open>__len__\<close> is the table size \<open>18\<close>, while the inherited \<^verbatim>\<open>__getitem__\<close> indexes the
  three basins, as \<^verbatim>\<open>BaseDataset.__len__\<close> (\<open>3\<close>) says: index \<open>3\<close>, below the variant's length,
  raises \<^verbatim>\<open>IndexError\<close>. At index \<open>2\<close> the variant's target is the last timestep of the
  whole series (\<open>109\<close>), while row \<open>rho - 1\<close> of the base target is \<open>102\<close>.
\<close>

theorem BasinSingleFlowDataset_inference_len_mismatch:
  "map_sum id
     (\<lambda>ds. (BasinSingleFlowDataset_len ds,
            BaseDataset_len ds,
            map_sum id snd (BasinSingleFlowDataset_getitem id ds 3),
            map_sum id snd (BasinSingleFlowDataset_getitem id ds 2),
            map_sum id (\<lambda>r. snd r ! (3 - 1)) (BaseDataset_getitem id ds 2)))
     (BaseDataset_init example_sites example_x example_y None 3 2 ''test'')
   = Inr (18, 3, Inl IndexError, Inr [109], Inr [102])"
  by code_simp

section \<open>Properties of DplDataset\<close>

lemma DplDataset_attributes_no_sel: "''sel'' \<notin> set (DplDataset_attributes dpl)"
  by (simp add: DplDataset_attributes_def split: option.split)

lemma DplDataset_getitem_inference_target_as_input:
  assumes "dpl_target_as_input dpl"
  shows "\<exists>e. DplDataset_getitem_inference_x_norm dpl item = Inl e"
  using assms DplDataset_attributes_no_sel
  unfolding DplDataset_getitem_inference_x_norm_def Let_def DplDataset_getattr_def
  by (auto split: sum.splits option.splits)

text \<open>
  C9. In inference mode with \<^verbatim>\<open>target_as_input\<close> the constructor does build and hold a
  training-mode instance, but indexed access never reads it: the lookup of \<^verbatim>\<open>sel\<close> on the
  held dataset raises \<^verbatim>\<open>AttributeError\<close>. On the example source, test mode, at item \<open>0\<close>:
  the instance is held, it is in train mode, and access raises.
\<close>

theorem DplDataset_inference_target_as_input_raises:
  "map_sum id
     (\<lambda>dpl. (map_option (\<lambda>tr. ds_train_mode (dpl_base tr)) (dpl_train_dataset dpl),
             ds_train_mode (dpl_base dpl),
             DplDataset_getitem_inference_x_norm dpl 0))
     (DplDataset_init example_source 3 2 True False ''test'')
   = Inr (Some True, False, Inl AttributeError)"
  by code_simp

section \<open>Properties of the scalers\<close>

lemma shutil_copy_cases:
  "read_file fs p = None \<Longrightarrow> shutil_copy p dst fs = Inl FileNotFoundError"
  "read_file fs p = Some content \<Longrightarrow> fs_resolve fs p \<noteq> fs_resolve fs dst
     \<Longrightarrow> shutil_copy p dst fs = Inr (write_file fs dst content)"
  "read_file fs p = Some content \<Longrightarrow> fs_resolve fs p = fs_resolve fs dst
     \<Longrightarrow> shutil_copy p dst fs = Inl SameFileError"
  by (simp_all add: shutil_copy_def)

lemma read_write_file: "read_file (write_file fs path content) path = Some content"
  by (simp add: read_file_def write_file_def)

lemma DapengScaler_load_independent:
  assumes "\<not> (loader_type = ''train'' \<and> stat_dict_file = None)"
  shows "DapengScaler_init_stat_dict cal_stat_all data loader_type test_path stat_dict_file fs
       = DapengScaler_init_stat_dict cal_stat_all' data' loader_type test_path stat_dict_file fs"
proof -
  from assms have c: "(loader_type = ''train'' \<and> stat_dict_file = None) = False" by simp
  show ?thesis unfolding DapengScaler_init_stat_dict_def Let_def c by simp
qed

lemma ScalerHub_group_load_independent:
  assumes "\<not> (loader_type = ''train'' \<and> stat_dict_file = None)"
  shows "ScalerHub_group fit transform norm_key three_dim data_tmp loader_type test_path
           stat_dict_file fs
       = ScalerHub_group fit' transform norm_key three_dim data_tmp loader_type test_path
           stat_dict_file fs"
proof -
  from assms have c: "(loader_type = ''train'' \<and> stat_dict_file = None) = False" by simp
  show ?thesis unfolding ScalerHub_group_def Let_def c by simp
qed

lemma DapengScaler_load_cases:
  assumes "\<not> (loader_type = ''train'' \<and> stat_dict_file = None)"
    and "stat_file = path_join test_path ''dapengscaler_stat.json''"
  shows "stat_dict_file = None \<Longrightarrow> read_file fs stat_file = None
           \<Longrightarrow> DapengScaler_init_stat_dict cal_stat_all data loader_type test_path
                 stat_dict_file fs = Inl AssertionError"
    and "stat_dict_file = None \<Longrightarrow> read_file fs stat_file = Some (Json st)
           \<Longrightarrow> DapengScaler_init_stat_dict cal_stat_all data loader_type test_path
                 stat_dict_file fs = Inr (st, fs)"
    and "stat_dict_file = Some p \<Longrightarrow> read_file fs p = Some (Json st)
           \<Longrightarrow> fs_resolve fs p \<noteq> fs_resolve fs stat_file
           \<Longrightarrow> DapengScaler_init_stat_dict cal_stat_all data loader_type test_path
                 stat_dict_file fs = Inr (st, write_file fs stat_file (Json st))"
    and "stat_dict_file = Some p \<Longrightarrow> read_file fs p = None
           \<Longrightarrow> DapengScaler_init_stat_dict cal_stat_all data loader_type test_path
                 stat_dict_file fs = Inl FileNotFoundError"
    and "stat_dict_file = Some p \<Longrightarrow> read_file fs p = Some content
           \<Longrightarrow> fs_resolve fs p = fs_resolve fs stat_file
           \<Longrightarrow> DapengScaler_init_stat_dict cal_stat_all data loader_type test_path
                 stat_dict_file fs = Inl SameFileError"
  using assms unfolding DapengScaler_init_stat_dict_def Let_def
  by (simp_all add: shutil_copy_cases json_load_def read_write_file)

lemma ScalerHub_group_load_cases:
  assumes "\<not> (loader_type = ''train'' \<and> stat_dict_file = None)"
    and "save_file = path_join test_path (norm_key @ ''_scaler.pkl'')"
  shows "stat_dict_file = None \<Longrightarrow> read_file fs save_file = None
           \<Longrightarrow> ScalerHub_group fit transform norm_key three_dim data_tmp loader_type test_path
                 stat_dict_file fs
               = Inl (if three_dim then FileNotFoundError else AssertionError)"
    and "stat_dict_file = None \<Longrightarrow> read_file fs save_file = Some (Pickle sc)
           \<Longrightarrow> ScalerHub_group fit transform norm_key three_dim data_tmp loader_type test_path
                 stat_dict_file fs
               = Inr ((transform sc data_tmp, sc), fs)"
    and "stat_dict_file = Some p \<Longrightarrow> read_file fs p = Some (Pickle sc)
           \<Longrightarrow> fs_resolve fs p \<noteq> fs_resolve fs save_file
           \<Longrightarrow> ScalerHub_group fit transform norm_key three_dim data_tmp loader_type test_path
                 stat_dict_file fs
               = Inr ((transform sc data_tmp, sc), write_file fs save_file (Pickle sc))"
    and "stat_dict_file = Some p \<Longrightarrow> read_file fs p = None
           \<Longrightarrow> ScalerHub_group fit transform norm_key three_dim data_tmp loader_type test_path
                 stat_dict_file fs
               = Inl FileNotFoundError"
    and "stat_dict_file = Some p \<Longrightarrow> read_file fs p = Some content
           \<Longrightarrow> fs_resolve fs p = fs_resolve fs save_file
           \<Longrightarrow> ScalerHub_group fit transform norm_key three_dim data_tmp loader_type test_path
                 stat_dict_file fs
               = Inl SameFileError"
  using assms unfolding ScalerHub_group_def Let_def
  by (simp_all add: shutil_copy_cases pkl_load_def read_write_file)

subsection \<open>Statistics are loaded, not recomputed\<close>

text \<open>
  C6, as the code has it. With loader type valid or test, or with an external statistics
  file at any loader type, neither scaler computes statistics from the data it is given:
  the result does not depend on the data or on the fitting function. Without an external
  file the record (or fitted scaler) is the one found in the run directory, and its absence
  is an error (\<^verbatim>\<open>AssertionError\<close> for the statistics record and for the attribute group,
  \<^verbatim>\<open>FileNotFoundError\<close> for the three-dimensional groups), never a computation. An external
  file that exists and is not the run directory's own file is first copied over the run
  directory's file and then loaded from there; an external file that does not exist is a
  \<^verbatim>\<open>FileNotFoundError\<close>; an external path that names the run directory's own, existing file
  is a \<^verbatim>\<open>SameFileError\<close>, and nothing is loaded.
\<close>

theorem persisted_statistics_reused:
  assumes "loader_type \<in> {''valid'', ''test''} \<or> stat_dict_file \<noteq> None"
    and "stat_file = path_join test_path ''dapengscaler_stat.json''"
    and "save_file = path_join test_path (norm_key @ ''_scaler.pkl'')"
  shows "DapengScaler_init_stat_dict cal_stat_all data loader_type test_path stat_dict_file fs
           = DapengScaler_init_stat_dict cal_stat_all' data' loader_type test_path
               stat_dict_file fs
       \<and> ScalerHub_group fit transform norm_key three_dim data_tmp loader_type test_path
             stat_dict_file fs
           = ScalerHub_group fit' transform norm_key three_dim data_tmp loader_type test_path
               stat_dict_file fs
       \<and> (stat_dict_file = None \<and> read_file fs stat_file = None
            \<longrightarrow> DapengScaler_init_stat_dict cal_stat_all data loader_type test_path
                  stat_dict_file fs = Inl AssertionError)
       \<and> (stat_dict_file = None \<and> read_file fs save_file = None
            \<longrightarrow> ScalerHub_group fit transform norm_key three_dim data_tmp loader_type test_path
                  stat_dict_file fs
                = Inl (if three_dim then FileNotFoundError else AssertionError))
       \<and> (\<forall>st. stat_dict_file = None \<and> read_file fs stat_file = Some (Json st)
            \<longrightarrow> DapengScaler_init_stat_dict cal_stat_all data loader_type test_path
                  stat_dict_file fs = Inr (st, fs))
       \<and> (\<forall>sc. stat_dict_file = None \<and> read_file fs save_file = Some (Pickle sc)
            \<longrightarrow> ScalerHub_group fit transform norm_key three_dim data_tmp loader_type test_path
                  stat_dict_file fs
                = Inr ((transform sc data_tmp, sc), fs))
       \<and> (\<forall>p st. stat_dict_file = Some p \<and> read_file fs p = Some (Json st)
                  \<and> fs_resolve fs p \<noteq> fs_resolve fs stat_file
            \<longrightarrow> DapengScaler_init_stat_dict cal_stat_all data loader_type test_path
                  stat_dict_file fs = Inr (st, write_file fs stat_file (Json st)))
       \<and> (\<forall>p sc. stat_dict_file = Some p \<and> read_file fs p = Some (Pickle sc)
                  \<and> fs_resolve fs p \<noteq> fs_resolve fs save_file
            \<longrightarrow> ScalerHub_group fit transform norm_key three_dim data_tmp loader_type test_path
                  stat_dict_file fs
                = Inr ((transform sc data_tmp, sc), write_file fs save_file (Pickle sc)))
       \<and> (\<forall>p. stat_dict_file = Some p \<and> read_file fs p = None
            \<longrightarrow> DapengScaler_init_stat_dict cal_stat_all data loader_type test_path
                  stat_dict_file fs = Inl FileNotFoundError
                \<and> ScalerHub_group fit transform norm_key three_dim data_tmp loader_type test_path
                    stat_dict_file fs = Inl FileNotFoundError)
       \<and> (\<forall>p content. stat_dict_file = Some p \<and> read_file fs p = Some content
                  \<and> fs_resolve fs p = fs_resolve fs stat_file
            \<longrightarrow> DapengScaler_init_stat_dict cal_stat_all data loader_type test_path
                  stat_dict_file fs = Inl SameFileError)
       \<and> (\<forall>p content. stat_dict_file = Some p \<and> read_file fs p = Some content
                  \<and> fs_resolve fs p = fs_resolve fs save_file
            \<longrightarrow> ScalerHub_group fit transform norm_key three_dim data_tmp loader_type test_path
                  stat_dict_file fs = Inl SameFileError)"
proof -
  from assms(1) have m: "\<not> (loader_type = ''train'' \<and> stat_dict_file = None)" by auto
  note d = DapengScaler_load_cases [OF m assms(2)]
  note g = ScalerHub_group_load_cases [OF m assms(3)]
  show ?thesis
    apply (intro conjI allI impI)
    subgoal by (rule DapengScaler_load_independent [OF m])
    subgoal by (rule ScalerHub_group_load_independent [OF m])
    subgoal by (erule conjE) (rule d(1))
    subgoal by (erule conjE) (rule g(1))
    subgoal by (erule conjE) (rule d(2))
    subgoal by (erule conjE) (rule g(2))
    subgoal by (elim conjE) (rule d(3))
    subgoal by (elim conjE) (rule g(3))
    subgoal by (erule conjE) (rule d(4))
    subgoal by (erule conjE) (rule g(4))
    subgoal by (elim conjE) (rule d(5))
    subgoal by (elim conjE) (rule g(5))
    done
qed

lemma example_fs_reads:
  "read_file example_fs_empty ''run/dapengscaler_stat.json'' = None"
  "read_file example_fs_empty ''run/target_vars_scaler.pkl'' = None"
  "read_file example_fs ''run/dapengscaler_stat.json'' = Some (Json 7)"
  "read_file example_fs ''./run/dapengscaler_stat.json'' = Some (Json 7)"
  "read_file example_fs ''pub/stat.json'' = Some (Json 9)"
  "fs_resolve example_fs ''pub/stat.json'' \<noteq> fs_resolve example_fs ''run/dapengscaler_stat.json''"
  "fs_resolve example_fs ''./run/dapengscaler_stat.json''
     = fs_resolve example_fs ''run/dapengscaler_stat.json''"
  by (simp_all add: read_file_def example_fs_def example_fs_empty_def example_resolve_def)

lemma example_paths:
  "''run/dapengscaler_stat.json'' = path_join ''run'' ''dapengscaler_stat.json''"
  "''run/target_vars_scaler.pkl'' = path_join ''run'' (''target_vars'' @ ''_scaler.pkl'')"
  by (simp_all add: path_join_def)

theorem persisted_statistics_reused_witness:
  "DapengScaler_init_stat_dict (\<lambda>d. d + 1) (5::nat) ''test'' ''run'' None example_fs_empty
     = Inl AssertionError
   \<and> ScalerHub_group (\<lambda>d. d + 1) (\<lambda>sc d. sc * d) ''target_vars'' True (5::nat) ''test'' ''run''
        None example_fs_empty
     = Inl FileNotFoundError
   \<and> DapengScaler_init_stat_dict (\<lambda>d. d + 1) (5::nat) ''test'' ''run'' None example_fs
     = Inr (7, example_fs)
   \<and> DapengScaler_init_stat_dict (\<lambda>d. d + 1) (5::nat) ''test'' ''run'' None example_fs
     = DapengScaler_init_stat_dict (\<lambda>d. d + 2) (6::nat) ''test'' ''run'' None example_fs
   \<and> DapengScaler_init_stat_dict (\<lambda>d. d + 1) (5::nat) ''train'' ''run'' (Some ''pub/stat.json'')
        example_fs
     = Inr (9, write_file example_fs ''run/dapengscaler_stat.json'' (Json 9))"
proof -
  have h: "''test'' \<in> {''valid'', ''test''} \<or> (None :: string option) \<noteq> None" by simp
  have h': "''train'' \<in> {''valid'', ''test''} \<or> Some ''pub/stat.json'' \<noteq> None" by simp
  note t1 = persisted_statistics_reused [OF h example_paths,
      where fs = example_fs_empty and cal_stat_all = "\<lambda>d. d + 1"
        and data = "5::nat" and cal_stat_all' = "\<lambda>d. d + 2" and data' = "6::nat"
        and fit = "\<lambda>d. d + 1" and fit' = "\<lambda>d. d + 2" and transform = "\<lambda>sc d. sc * d"
        and three_dim = True and data_tmp = "5::nat"]
  note t2 = persisted_statistics_reused [OF h example_paths,
      where fs = example_fs and cal_stat_all = "\<lambda>d. d + 1" and data = "5::nat"
        and cal_stat_all' = "\<lambda>d. d + 2" and data' = "6::nat"
        and fit = "\<lambda>d. d + 1" and fit' = "\<lambda>d. d + 2" and transform = "\<lambda>sc d. sc * d"
        and three_dim = True and data_tmp = "5::nat"]
  note t3 = persisted_statistics_reused [OF h' example_paths,
      where fs = example_fs and cal_stat_all = "\<lambda>d. d + 1" and data = "5::nat"
        and cal_stat_all' = "\<lambda>d. d + 2" and data' = "6::nat"
        and fit = "\<lambda>d. d + 1" and fit' = "\<lambda>d. d + 2" and transform = "\<lambda>sc d. sc * d"
        and three_dim = True and data_tmp = "5::nat"]
  note c2 = conjunct2
  have a: "DapengScaler_init_stat_dict (\<lambda>d. d + 1) (5::nat) ''test'' ''run'' None
      example_fs_empty = Inl AssertionError"
    by (rule t1 [THEN c2, THEN c2, THEN conjunct1, THEN mp])
       (simp add: example_fs_reads)
  have "ScalerHub_group (\<lambda>d. d + 1) (\<lambda>sc d. sc * d) ''target_vars'' True (5::nat) ''test''
      ''run'' None example_fs_empty = Inl (if True then FileNotFoundError else AssertionError)"
    by (rule t1 [THEN c2, THEN c2, THEN c2, THEN conjunct1, THEN mp])
       (simp add: example_fs_reads)
  then have b: "ScalerHub_group (\<lambda>d. d + 1) (\<lambda>sc d. sc * d) ''target_vars'' True (5::nat) ''test''
      ''run'' None example_fs_empty = Inl FileNotFoundError"
    by simp
  have c: "DapengScaler_init_stat_dict (\<lambda>d. d + 1) (5::nat) ''test'' ''run'' None example_fs
     = Inr (7, example_fs)"
    by (rule t2 [THEN c2, THEN c2, THEN c2, THEN c2, THEN conjunct1, THEN spec, THEN mp])
       (simp add: example_fs_reads)
  have d: "DapengScaler_init_stat_dict (\<lambda>d. d + 1) (5::nat) ''test'' ''run'' None example_fs
     = DapengScaler_init_stat_dict (\<lambda>d. d + 2) (6::nat) ''test'' ''run'' None example_fs"
    using t2 by (rule conjunct1)
  have e: "DapengScaler_init_stat_dict (\<lambda>d. d + 1) (5::nat) ''train'' ''run''
        (Some ''pub/stat.json'') example_fs
     = Inr (9, write_file example_fs ''run/dapengscaler_stat.json'' (Json 9))"
    by (rule t3 [THEN c2, THEN c2, THEN c2, THEN c2, THEN c2, THEN c2, THEN conjunct1,
          THEN spec [of _ "''pub/stat.json''"], THEN spec, THEN mp])
       (simp add: example_fs_reads)
  from a b c d e show ?thesis by (intro conjI)
qed

text \<open>
  The claim as the specification states it fails when the external path names the run
  directory's own statistics file: the file is present, and the constructor raises
  \<^verbatim>\<open>SameFileError\<close> instead of copying and loading it.
\<close>

theorem persisted_statistics_same_file_counterexample:
  "read_file example_fs ''./run/dapengscaler_stat.json'' = Some (Json 7)
   \<and> DapengScaler_init_stat_dict (\<lambda>d. d + 1) (5::nat) ''test'' ''run''
        (Some ''./run/dapengscaler_stat.json'') example_fs
     = Inl SameFileError"
  by (simp add: example_fs_reads DapengScaler_init_stat_dict_def Let_def shutil_copy_def
      path_join_def)

subsection \<open>Round trip\<close>

lemma spec_plain_roundtrip:
  "snd stat \<noteq> 0 \<Longrightarrow> spec_plain_inverse stat (spec_plain_forward stat x) = x"
  by (simp add: spec_plain_inverse_def spec_plain_forward_def)

lemma spec_gamma_roundtrip:
  assumes "snd stat \<noteq> 0" and "0 \<le> x"
  shows "spec_gamma_inverse stat (spec_gamma_forward stat x) = x"
proof -
  have "0 < sqrt x + 1 / 10" using assms(2) by (simp add: add_nonneg_pos)
  then have "exp (ln (sqrt x + 1 / 10)) = sqrt x + 1 / 10" by (rule exp_ln)
  then show ?thesis
    unfolding spec_gamma_inverse_def spec_gamma_forward_def
    using assms by (simp add: spec_plain_roundtrip)
qed

lemma spec_ratio_roundtrip:
  "snd stat \<noteq> 0 \<Longrightarrow> reference \<noteq> 0
     \<Longrightarrow> spec_ratio_inverse stat reference (spec_ratio_forward stat reference x) = x"
  by (simp add: spec_ratio_inverse_def spec_ratio_forward_def spec_plain_roundtrip)

lemma get_data_obs_without_prcp_norm:
  assumes "set target_cols \<inter> set prcp_norm_cols = {}"
  shows "get_data_obs trans_norm prcp_norm stat_dict prcp_norm_cols log_norm_cols mean_prep
           target_cols data to_norm
       = Inr (trans_norm (full_like_nan data) target_cols stat_dict log_norm_cols to_norm)"
proof -
  have "fold (\<lambda>var r.
                case r of
                  Inl e \<Rightarrow> Inl e
                | Inr out \<Rightarrow>
                    if var \<in> set prcp_norm_cols
                    then
                      if var \<in> set (da_variable data)
                      then Inr (out\<lparr>da_values :=
                                 (da_values out)
                                   (var := prcp_norm (da_values data var) mean_prep True)\<rparr>)
                      else Inl KeyError
                    else Inr out)
          cols (Inr out0) = Inr out0"
    if "set cols \<inter> set prcp_norm_cols = {}" for cols and out0 :: "('a, float) DataArray"
    using that by (induction cols) auto
  from this [OF assms] show ?thesis by (simp add: get_data_obs_def)
qed

text \<open>
  The ratio-to-reference path, for comparison: for a target variable that is a
  \<^verbatim>\<open>prcp_norm\<close> column the observations are copied, and with the helpers as the
  specification describes them \<^verbatim>\<open>inverse_transform\<close> (before the unit conversion) returns
  the observation.
\<close>

lemma ratio_target_roundtrip:
  assumes "v \<in> set prcp_norm_cols" and "v \<in> set log_norm_cols"
    and "v \<in> set (da_variable data)" and "snd (stat_dict v) \<noteq> 0"
    and "da_values data v b t = Some x" and "0 \<le> x"
    and "mean_prep b = Some m" and "0 < m"
  shows "\<exists>z r. get_data_obs spec_trans_norm spec_prcp_norm stat_dict prcp_norm_cols
                 log_norm_cols mean_prep [v] data True = Inr z
              \<and> inverse_transform spec_trans_norm spec_prcp_norm id stat_dict prcp_norm_cols
                  log_norm_cols mean_prep [v] False z = Inr r
              \<and> da_values r v b t = Some x"
proof -
  have q: "0 \<le> x / m" using assms(6,8) by simp
  have g: "spec_gamma_inverse (stat_dict v) (spec_gamma_forward (stat_dict v) (x / m)) = x / m"
    by (rule spec_gamma_roundtrip [OF assms(4) q])
  show ?thesis
    using assms g
    by (simp add: get_data_obs_def inverse_transform_def spec_trans_norm_def
        spec_prcp_norm_def full_like_nan_def)
qed

text \<open>
  C5, on the code. For a target variable that is not a \<^verbatim>\<open>prcp_norm\<close> column (the plain and
  the gamma policy), \<^verbatim>\<open>get_data_obs\<close> never reads the observations: whatever the helpers
  \<^verbatim>\<open>_trans_norm\<close> and \<^verbatim>\<open>_prcp_norm\<close> do, the series \<open>1, 2\<close> and the series \<open>5, 6\<close> have the
  same normalised form, so no inverse transform returns both; with the helpers as the
  specification describes them that form is NaN throughout.
\<close>

theorem get_data_obs_plain_target_lost:
  "get_data_obs trans_norm prcp_norm stat_dict [''streamflow''] log_norm_cols mean_prep
       [''evapotranspiration''] (example_target 1) to_norm
     = get_data_obs trans_norm prcp_norm stat_dict [''streamflow''] log_norm_cols mean_prep
         [''evapotranspiration''] (example_target 5) to_norm
   \<and> to_numpy (example_target 1) = [[[Some 1, Some 2]]]
   \<and> to_numpy (example_target 5) = [[[Some 5, Some 6]]]
   \<and> map_sum id to_numpy
       (get_data_obs spec_trans_norm spec_prcp_norm (\<lambda>v. (0, 1)) [''streamflow'']
          [''streamflow''] (\<lambda>b. Some 1) [''evapotranspiration''] (example_target 1) True)
     = Inr [[[None, None]]]"
proof -
  have "full_like_nan (example_target 1) = full_like_nan (example_target 5)"
    by (simp add: full_like_nan_def example_target_def)
  then have "get_data_obs trans_norm prcp_norm stat_dict [''streamflow''] log_norm_cols
        mean_prep [''evapotranspiration''] (example_target 1) to_norm
      = get_data_obs trans_norm prcp_norm stat_dict [''streamflow''] log_norm_cols mean_prep
          [''evapotranspiration''] (example_target 5) to_norm"
    by (simp add: get_data_obs_without_prcp_norm)
  moreover have "to_numpy (example_target 1) = [[[Some 1, Some 2]]]"
    and "to_numpy (example_target 5) = [[[Some 5, Some 6]]]"
    by (simp_all add: to_numpy_def example_target_def)
  moreover have "map_sum id to_numpy
       (get_data_obs spec_trans_norm spec_prcp_norm (\<lambda>v. (0, 1)) [''streamflow'']
          [''streamflow''] (\<lambda>b. Some 1) [''evapotranspiration''] (example_target 1) True)
     = Inr [[[None, None]]]"
    by (simp add: get_data_obs_def full_like_nan_def spec_trans_norm_def to_numpy_def
        example_target_def)
  ultimately show ?thesis by (intro conjI)
qed

end
